theory Spec2Isabelle
  imports Main
begin

section \<open>JavaScript values as the assistant sees them\<close>

text \<open>
  The AI assistant of the Jaeger UI (\<^verbatim>\<open>utils/ai-assistant/query-parser.ts\<close>,
  \<^verbatim>\<open>utils/ai-assistant/llm-client.ts\<close> and
  \<^verbatim>\<open>components/SearchTracePage/AIAssistantSearch.tsx\<close>) handles values that come out of
  \<^verbatim>\<open>JSON.parse\<close>. The TypeScript casts on them are unchecked, so the model keeps them as
  what they are at run time: JSON values. Line numbers are those of the source file that
  holds the query parser followed by the LLM client, and of the component's own file.

  A number is represented by its canonical rendering (the result of
  \<^verbatim>\<open>Number.prototype.toString\<close>, such as \<^verbatim>\<open>0.7\<close> or \<^verbatim>\<open>500\<close>), which identifies a double up to the
  sign of zero; the program observes a number only through its truthiness and that rendering.
  An object is the list of its own properties in iteration order. \<^verbatim>\<open>undefined\<close> is \<open>None\<close> of
  \<open>json option\<close>.
\<close>

datatype json =
    JNull
  | JBool bool
  | JNum string
  | JStr string
  | JArr "json list"
  | JObj "(string \<times> json) list"

text \<open>What a \<^verbatim>\<open>throw\<close> carries: an \<^verbatim>\<open>Error\<close> instance (\<^verbatim>\<open>TypeError\<close> and \<^verbatim>\<open>SyntaxError\<close>
  included) with its message, or any other value.\<close>

datatype thrown = Error string | NonError json

text \<open>The \<^verbatim>\<open>TypeError\<close>s the code can run into; their message text is the engine's.\<close>

datatype type_error =
    PropertyOfNull string
  | PropertyOfUndefined string
  | NotAFunction string
  | NotPrimitive

text \<open>
  What the JavaScript engine supplies: \<^verbatim>\<open>JSON.parse\<close> (\<open>Inl m\<close> is a \<^verbatim>\<open>SyntaxError\<close> with message
  \<open>m\<close>) and the message of each \<^verbatim>\<open>TypeError\<close>. Both are parameters of the model.
\<close>

record engine =
  JSON_parse :: "string \<Rightarrow> string + json"
  TypeError_message :: "type_error \<Rightarrow> string"

definition nl :: char where
  "nl = CHR 0x0A"

definition apos :: string where
  "apos = [CHR 0x27]"

text \<open>\<^verbatim>\<open>ToBoolean\<close>.\<close>

fun truthy :: "json \<Rightarrow> bool" where
  "truthy JNull = False"
| "truthy (JBool b) = b"
| "truthy (JNum r) = (r \<noteq> ''0'' \<and> r \<noteq> ''NaN'')"
| "truthy (JStr s) = (s \<noteq> [])"
| "truthy (JArr xs) = True"
| "truthy (JObj kvs) = True"

text \<open>\<^verbatim>\<open>a || b\<close> with \<open>a\<close> possibly \<^verbatim>\<open>undefined\<close>.\<close>

definition js_or :: "json option \<Rightarrow> json \<Rightarrow> json" where
  "js_or a b = (case a of None \<Rightarrow> b | Some v \<Rightarrow> if truthy v then v else b)"

text \<open>\<^verbatim>\<open>Array.prototype.join\<close> on strings.\<close>

fun join :: "string \<Rightarrow> string list \<Rightarrow> string" where
  "join sep [] = []"
| "join sep [x] = x"
| "join sep (x # y # ys) = x @ sep @ join sep (y # ys)"

text \<open>
  \<^verbatim>\<open>ToString\<close>, as a template literal applies it; \<open>None\<close> when it throws a \<^verbatim>\<open>TypeError\<close>. An object
  converts through \<^verbatim>\<open>Object.prototype.toString\<close> unless it has a key \<^verbatim>\<open>toString\<close> of its own: a
  value that came out of \<^verbatim>\<open>JSON.parse\<close> is never callable, \<^verbatim>\<open>valueOf\<close> (inherited, or an own key
  just as little callable) yields no primitive either, and the conversion throws. An array
  joins its elements with a comma, \<^verbatim>\<open>null\<close> elements rendering as the empty string, and throws
  when an element does.
\<close>

fun ToString :: "json \<Rightarrow> string option" where
  "ToString JNull = Some ''null''"
| "ToString (JBool b) = Some (if b then ''true'' else ''false'')"
| "ToString (JNum r) = Some r"
| "ToString (JStr s) = Some s"
| "ToString (JArr xs) =
     map_option (join '','') (those (map (\<lambda>x. if x = JNull then Some [] else ToString x) xs))"
| "ToString (JObj kvs) =
     (if map_of kvs ''toString'' = None then Some ''[object Object]'' else None)"

text \<open>
  Reading a named property \<open>v.k\<close> of a value that is neither \<^verbatim>\<open>null\<close> nor \<^verbatim>\<open>undefined\<close>. The
  program reads only \<^verbatim>\<open>service\<close>, \<^verbatim>\<open>operation\<close>, \<^verbatim>\<open>minDuration\<close>, \<^verbatim>\<open>maxDuration\<close>, \<^verbatim>\<open>tags\<close>,
  \<^verbatim>\<open>status\<close>, \<^verbatim>\<open>error\<close>, \<^verbatim>\<open>message\<close>, \<^verbatim>\<open>content\<close>, \<^verbatim>\<open>choices\<close> and \<^verbatim>\<open>response\<close>; no prototype has
  a property of one of these names, so only an object can answer.
\<close>

fun get_prop :: "json \<Rightarrow> string \<Rightarrow> json option" where
  "get_prop (JObj kvs) k = map_of kvs k"
| "get_prop v k = None"

text \<open>\<open>v[0]\<close> on a value that is neither \<^verbatim>\<open>null\<close> nor \<^verbatim>\<open>undefined\<close>.\<close>

fun index0 :: "json \<Rightarrow> json option" where
  "index0 (JArr xs) = (case xs of [] \<Rightarrow> None | x # _ \<Rightarrow> Some x)"
| "index0 (JStr s) = (case s of [] \<Rightarrow> None | c # _ \<Rightarrow> Some (JStr [c]))"
| "index0 (JObj kvs) = map_of kvs ''0''"
| "index0 v = None"

text \<open>Optional chaining \<open>a?.k\<close>.\<close>

definition opt_chain :: "json option \<Rightarrow> string \<Rightarrow> json option" where
  "opt_chain a k = (case a of None \<Rightarrow> None | Some JNull \<Rightarrow> None | Some v \<Rightarrow> get_prop v k)"

text \<open>\<^verbatim>\<open>typeof v === 'object'\<close>, and \<^verbatim>\<open>Object.keys(v).length\<close> on a value that is neither
  \<^verbatim>\<open>null\<close> nor \<^verbatim>\<open>undefined\<close>.\<close>

fun typeof_object :: "json \<Rightarrow> bool" where
  "typeof_object JNull = True"
| "typeof_object (JArr xs) = True"
| "typeof_object (JObj kvs) = True"
| "typeof_object v = False"

fun keys_length :: "json \<Rightarrow> nat" where
  "keys_length (JArr xs) = length xs"
| "keys_length (JObj kvs) = length kvs"
| "keys_length (JStr s) = length s"
| "keys_length v = 0"

text \<open>\<^verbatim>\<open>Object.entries\<close> of such a value: an array and a string list their indices as keys.\<close>

fun index_from :: "nat \<Rightarrow> 'a list \<Rightarrow> (nat \<times> 'a) list" where
  "index_from i [] = []"
| "index_from i (x # xs) = (i, x) # index_from (Suc i) xs"

fun digit_char :: "nat \<Rightarrow> char" where
  "digit_char n = char_of (48 + n mod 10)"

fun show_nat :: "nat \<Rightarrow> string" where
  "show_nat n = (if n < 10 then [digit_char n] else show_nat (n div 10) @ [digit_char n])"

declare show_nat.simps [simp del]

fun entries :: "json \<Rightarrow> (string \<times> json) list" where
  "entries (JObj kvs) = kvs"
| "entries (JArr xs) = map (\<lambda>(i, x). (show_nat i, x)) (index_from 0 xs)"
| "entries (JStr s) = map (\<lambda>(i, c). (show_nat i, JStr [c])) (index_from 0 s)"
| "entries v = []"

section \<open>String matching\<close>

fun starts_with :: "string \<Rightarrow> string \<Rightarrow> bool" where
  "starts_with [] s = True"
| "starts_with (p # ps) [] = False"
| "starts_with (p # ps) (c # cs) = (p = c \<and> starts_with ps cs)"

text \<open>\<^verbatim>\<open>String.prototype.includes\<close>.\<close>

fun str_includes :: "string \<Rightarrow> string \<Rightarrow> bool" where
  "str_includes [] p = (p = [])"
| "str_includes (c # cs) p = (starts_with p (c # cs) \<or> str_includes cs p)"

text \<open>The text after the leftmost occurrence of \<open>p\<close>.\<close>

fun find_after :: "string \<Rightarrow> string \<Rightarrow> string option" where
  "find_after p [] = (if p = [] then Some [] else None)"
| "find_after p (c # cs) =
     (if starts_with p (c # cs) then Some (drop (length p) (c # cs)) else find_after p cs)"

definition fence :: string where
  "fence = [CHR 0x60, CHR 0x60, CHR 0x60]"

text \<open>The lazy group \<^verbatim>\<open>([\s\S]*?)\<close> followed by \<^verbatim>\<open>\n?```\<close>: the shortest prefix after which an
  optional newline and a fence follow.\<close>

fun lazy_capture :: "string \<Rightarrow> string option" where
  "lazy_capture [] = None"
| "lazy_capture (c # cs) =
     (if starts_with fence (c # cs) \<or> starts_with (nl # fence) (c # cs) then Some []
      else map_option ((#) c) (lazy_capture cs))"

text \<open>
  Group 1 of the leftmost match of \<^verbatim>\<open>/```json\n?([\s\S]*?)\n?```/\<close>. A match can only start at
  the leftmost \<^verbatim>\<open>```json\<close>: a later start that matches needs a closing fence, which would close
  the leftmost one too. The greedy \<^verbatim>\<open>\n?\<close> after the opening takes a newline when there is one;
  giving it back never helps, since a fence cannot start with a newline.
\<close>

definition strip_newline :: "string \<Rightarrow> string" where
  "strip_newline r = (case r of [] \<Rightarrow> [] | c # cs \<Rightarrow> if c = nl then cs else c # cs)"

definition match_fenced :: "string \<Rightarrow> string option" where
  "match_fenced s =
     (case find_after (fence @ ''json'') s of
        None \<Rightarrow> None
      | Some r \<Rightarrow> lazy_capture (strip_newline r))"

text \<open>The leftmost match of \<^verbatim>\<open>/\{[\s\S]*\}/\<close>: from the first opening brace, greedily, to the last
  closing brace after it.\<close>

definition match_plain :: "string \<Rightarrow> string option" where
  "match_plain s =
     (let r = dropWhile (\<lambda>c. c \<noteq> CHR ''{'') s
      in if CHR ''}'' \<in> set r then Some (rev (dropWhile (\<lambda>c. c \<noteq> CHR ''}'') (rev r))) else None)"

section \<open>The query parser\<close>

text \<open>
  \<^verbatim>\<open>IParsedQuery\<close>. The first four fields hold a string or nothing: \<^verbatim>\<open>parseNaturalLanguageQuery\<close>
  checks \<^verbatim>\<open>typeof\<close> before it fills them. \<^verbatim>\<open>tags\<close> and \<^verbatim>\<open>status\<close> are filled through a cast
  (\<^verbatim>\<open>as Record<string, string>\<close>, \<^verbatim>\<open>as 'error' | 'success' | 'all' | undefined\<close>), which checks
  nothing, so they hold a JSON value.
\<close>

record IParsedQuery =
  service :: "string option"
  operation :: "string option"
  minDuration :: "string option"
  maxDuration :: "string option"
  tags :: "json option"
  status :: "json option"
  natural_language_question :: string

text \<open>Lines 58 to 68: the text handed to \<^verbatim>\<open>JSON.parse\<close>.\<close>

definition extract_json :: "string \<Rightarrow> string" where
  "extract_json content =
     (case match_fenced content of
        Some inner \<Rightarrow> inner
      | None \<Rightarrow> (case match_plain content of Some span \<Rightarrow> span | None \<Rightarrow> content))"

text \<open>\<^verbatim>\<open>typeof x === 'string' ? x : undefined\<close> (lines 73 to 76).\<close>

fun string_or_undefined :: "json option \<Rightarrow> string option" where
  "string_or_undefined (Some (JStr s)) = Some s"
| "string_or_undefined v = None"

text \<open>\<^verbatim>\<open>x && x !== '' ? x : undefined\<close> (lines 85 to 88).\<close>

definition nonempty_or_undefined :: "string option \<Rightarrow> string option" where
  "nonempty_or_undefined x =
     (case x of None \<Rightarrow> None | Some s \<Rightarrow> if s \<noteq> [] \<and> s \<noteq> '''' then Some s else None)"

text \<open>Lines 77 to 80.\<close>

definition normalize_tags :: "json option \<Rightarrow> json option" where
  "normalize_tags t =
     (case t of
        None \<Rightarrow> None
      | Some v \<Rightarrow> if truthy v \<and> typeof_object v \<and> keys_length v > 0 then Some v else None)"

text \<open>Lines 73 to 91, on a parsed value other than \<^verbatim>\<open>null\<close>.\<close>

definition normalize :: "string \<Rightarrow> json \<Rightarrow> IParsedQuery" where
  "normalize question parsed =
     (let service = string_or_undefined (get_prop parsed ''service'');
          operation = string_or_undefined (get_prop parsed ''operation'');
          minDuration = string_or_undefined (get_prop parsed ''minDuration'');
          maxDuration = string_or_undefined (get_prop parsed ''maxDuration'');
          tags = normalize_tags (get_prop parsed ''tags'');
          status = js_or (get_prop parsed ''status'') (JStr ''all'')
      in \<lparr> service = nonempty_or_undefined service,
           operation = nonempty_or_undefined operation,
           minDuration = nonempty_or_undefined minDuration,
           maxDuration = nonempty_or_undefined maxDuration,
           tags = tags,
           status = Some status,
           natural_language_question = question \<rparr>)"

definition parse_failure :: "string \<Rightarrow> thrown" where
  "parse_failure m = Error (''Failed to parse LLM response as JSON: '' @ m)"

text \<open>
  The \<^verbatim>\<open>try\<close> block of \<^verbatim>\<open>parseNaturalLanguageQuery\<close> with its \<^verbatim>\<open>catch\<close> (lines 56 to 98), on the
  content the gateway returned. Three things throw inside it, each an \<^verbatim>\<open>Error\<close> instance:
  \<^verbatim>\<open>jsonContent.match\<close> when the content is not a string, \<^verbatim>\<open>JSON.parse\<close>, and
  \<^verbatim>\<open>parsed.service\<close> when the text parsed to \<^verbatim>\<open>null\<close>.
\<close>

definition parse_content :: "engine \<Rightarrow> string \<Rightarrow> json \<Rightarrow> thrown + IParsedQuery" where
  "parse_content eng question content =
     (case content of
        JStr text \<Rightarrow>
          (case JSON_parse eng (extract_json text) of
             Inl m \<Rightarrow> Inl (parse_failure m)
           | Inr parsed \<Rightarrow>
               if parsed = JNull
               then Inl (parse_failure (TypeError_message eng (PropertyOfNull ''service'')))
               else Inr (normalize question parsed))
      | _ \<Rightarrow> Inl (parse_failure (TypeError_message eng (NotAFunction ''jsonContent.match''))))"

section \<open>The filter compiler\<close>

text \<open>The \<^verbatim>\<open>Record<string, string>\<close> that \<^verbatim>\<open>convertParsedQueryToSearchFilters\<close> builds: its
  properties in insertion order. Assigning to a key that exists keeps its place.\<close>

type_synonym filters = "(string \<times> string) list"

fun assign :: "string \<Rightarrow> string \<Rightarrow> filters \<Rightarrow> filters" where
  "assign k v [] = [(k, v)]"
| "assign k v ((k', v') # kvs) = (if k' = k then (k, v) # kvs else (k', v') # assign k v kvs)"

text \<open>\<^verbatim>\<open>if (parsed.f) { filters.f = parsed.f; }\<close> (lines 105 to 119).\<close>

definition copy_field :: "string \<Rightarrow> string option \<Rightarrow> filters \<Rightarrow> filters" where
  "copy_field k x fs = (case x of None \<Rightarrow> fs | Some s \<Rightarrow> if s \<noteq> [] then assign k s fs else fs)"

text \<open>Lines 122 to 128: the tags in logfmt. The template literal of line 125 throws a
  \<^verbatim>\<open>TypeError\<close> when a value has no string conversion; the loop stops there.\<close>

definition tag_string :: "string \<times> json \<Rightarrow> string option" where
  \<open>tag_string kv = map_option (\<lambda>value. fst kv @ ''="'' @ value @ ''"'') (ToString (snd kv))\<close>

definition copy_tags :: "json option \<Rightarrow> filters \<Rightarrow> type_error + filters" where
  "copy_tags t fs =
     (case t of
        None \<Rightarrow> Inr fs
      | Some v \<Rightarrow>
          if truthy v \<and> keys_length v > 0
          then (case those (map tag_string (entries v)) of
                  None \<Rightarrow> Inl NotPrimitive
                | Some tagStrings \<Rightarrow> Inr (assign ''tags'' (join '' '' tagStrings) fs))
          else Inr fs)"

text \<open>Lines 132 and 133 (and 135 and 136): \<^verbatim>\<open>filters.tags || ''\<close>, then the marker after it.\<close>

definition append_marker :: "string \<Rightarrow> filters \<Rightarrow> filters" where
  "append_marker marker fs =
     (let existingTags = (case map_of fs ''tags'' of None \<Rightarrow> [] | Some t \<Rightarrow> t)
      in assign ''tags'' (if existingTags \<noteq> [] then existingTags @ '' '' @ marker else marker) fs)"

text \<open>\<^verbatim>\<open>convertParsedQueryToSearchFilters\<close> (lines 102 to 140): the filter set, or the
  \<^verbatim>\<open>TypeError\<close> it throws.\<close>

definition convertParsedQueryToSearchFilters :: "IParsedQuery \<Rightarrow> type_error + filters" where
  \<open>convertParsedQueryToSearchFilters parsed =
     (let filters = [];
          filters = copy_field ''service'' (service parsed) filters;
          filters = copy_field ''operation'' (operation parsed) filters;
          filters = copy_field ''minDuration'' (minDuration parsed) filters;
          filters = copy_field ''maxDuration'' (maxDuration parsed) filters
      in case copy_tags (tags parsed) filters of
           Inl e \<Rightarrow> Inl e
         | Inr filters \<Rightarrow>
             Inr (if status parsed = Some (JStr ''error'')
                  then append_marker ''otel.status_code="ERROR"'' filters
                  else if status parsed = Some (JStr ''success'')
                  then append_marker ''otel.status_code="OK"'' filters
                  else filters))\<close>

section \<open>The LLM client\<close>

text \<open>
  \<^verbatim>\<open>fetch\<close> is the environment. A request is what the adapter hands to it (the body before
  \<^verbatim>\<open>JSON.stringify\<close>); the network answers each request after some time with a rejection or
  with a response, whose body is read as text or through \<^verbatim>\<open>JSON.parse\<close>.
\<close>

record request =
  url :: string
  http_method :: string
  headers :: "(string \<times> string) list"
  body :: json

record response =
  ok :: bool
  statusText :: string
  body_text :: string

datatype settled = Rejected thrown | Resolved response

type_synonym network = "request \<Rightarrow> nat \<times> settled"

text \<open>An \<^verbatim>\<open>async\<close> function returns what its promise settles with (\<open>Inl\<close>: it rejects) and the
  requests it has sent, in order.\<close>

type_synonym 'a async = "(thrown + 'a) \<times> request list"

text \<open>The time a caller waits: every \<^verbatim>\<open>fetch\<close> is awaited in turn.\<close>

definition elapsed :: "network \<Rightarrow> request list \<Rightarrow> nat" where
  "elapsed net calls = sum_list (map (\<lambda>r. fst (net r)) calls)"

text \<open>\<^verbatim>\<open>ILLMClientConfig\<close> and \<^verbatim>\<open>ILLMResponse\<close>. \<^verbatim>\<open>LLMModel\<close> is a union of string literals, at run
  time a string; the content is whatever the adapter returned.\<close>

record ILLMClientConfig =
  model :: string
  apiKey :: "string option"
  baseURL :: "string option"

record ILLMResponse =
  content :: json
  llm_model :: string

record OpenAIClient =
  openai_apiKey :: string
  openai_model :: string
  openai_baseURL :: string

definition new_OpenAIClient :: "string \<Rightarrow> string \<Rightarrow> OpenAIClient" where
  "new_OpenAIClient key m =
     \<lparr> openai_apiKey = key, openai_model = m, openai_baseURL = ''https://api.openai.com/v1'' \<rparr>"

definition openai_request :: "OpenAIClient \<Rightarrow> string \<Rightarrow> request" where
  "openai_request c prompt =
     \<lparr> url = openai_baseURL c @ ''/chat/completions'',
       http_method = ''POST'',
       headers = [(''Content-Type'', ''application/json''),
                  (''Authorization'', ''Bearer '' @ openai_apiKey c)],
       body = JObj [(''model'', JStr (openai_model c)),
                    (''messages'', JArr [JObj [(''role'', JStr ''user''), (''content'', JStr prompt)]]),
                    (''temperature'', JNum ''0.7''),
                    (''max_tokens'', JNum ''500'')] \<rparr>"

text \<open>\<^verbatim>\<open>data.choices[0]?.message?.content || ''\<close> (line 194).\<close>

definition first_choice_content :: "engine \<Rightarrow> json \<Rightarrow> thrown + json" where
  "first_choice_content eng data =
     (if data = JNull then Inl (Error (TypeError_message eng (PropertyOfNull ''choices'')))
      else case get_prop data ''choices'' of
             None \<Rightarrow> Inl (Error (TypeError_message eng (PropertyOfUndefined ''0'')))
           | Some JNull \<Rightarrow> Inl (Error (TypeError_message eng (PropertyOfNull ''0'')))
           | Some choices \<Rightarrow>
               Inr (js_or (opt_chain (opt_chain (index0 choices) ''message'') ''content'') (JStr [])))"

text \<open>\<^verbatim>\<open>error.error?.message || response.statusText\<close> in a template literal (line 190): the
  error of line 190, or the \<^verbatim>\<open>TypeError\<close> of building its message.\<close>

definition openai_error :: "engine \<Rightarrow> response \<Rightarrow> json \<Rightarrow> thrown" where
  "openai_error eng r error =
     (if error = JNull then Error (TypeError_message eng (PropertyOfNull ''error''))
      else case ToString (js_or (opt_chain (get_prop error ''error'') ''message'')
                            (JStr (statusText r))) of
             None \<Rightarrow> Error (TypeError_message eng NotPrimitive)
           | Some m \<Rightarrow> Error (''OpenAI API error: '' @ m))"

text \<open>\<^verbatim>\<open>OpenAIClient.query\<close> (lines 168 to 195). \<^verbatim>\<open>response.json()\<close> rejects with the
  \<^verbatim>\<open>SyntaxError\<close> of the parser.\<close>

definition OpenAIClient_query :: "engine \<Rightarrow> network \<Rightarrow> OpenAIClient \<Rightarrow> string \<Rightarrow> json async" where
  "OpenAIClient_query eng net c prompt =
     (let req = openai_request c prompt
      in (case snd (net req) of
            Rejected e \<Rightarrow> Inl e
          | Resolved r \<Rightarrow>
              if \<not> ok r
              then (case JSON_parse eng (body_text r) of
                      Inl m \<Rightarrow> Inl (Error m)
                    | Inr error \<Rightarrow> Inl (openai_error eng r error))
              else (case JSON_parse eng (body_text r) of
                      Inl m \<Rightarrow> Inl (Error m)
                    | Inr data \<Rightarrow> first_choice_content eng data),
          [req]))"

record OllamaClient =
  ollama_baseURL :: string
  ollama_model :: string

text \<open>The constructor (lines 200 to 210): each argument replaces its default when it is truthy.\<close>

definition new_OllamaClient :: "string option \<Rightarrow> string option \<Rightarrow> OllamaClient" where
  "new_OllamaClient b m =
     \<lparr> ollama_baseURL = (case b of None \<Rightarrow> ''http://localhost:11434''
                          | Some u \<Rightarrow> if u \<noteq> [] then u else ''http://localhost:11434''),
       ollama_model = (case m of None \<Rightarrow> ''llama2'' | Some n \<Rightarrow> if n \<noteq> [] then n else ''llama2'') \<rparr>"

definition ollama_request :: "OllamaClient \<Rightarrow> string \<Rightarrow> request" where
  "ollama_request c prompt =
     \<lparr> url = ollama_baseURL c @ ''/api/generate'',
       http_method = ''POST'',
       headers = [(''Content-Type'', ''application/json'')],
       body = JObj [(''model'', JStr (ollama_model c)),
                    (''prompt'', JStr prompt),
                    (''stream'', JBool False),
                    (''temperature'', JNum ''0.7'')] \<rparr>"

text \<open>Lines 228 to 237: the message of a response that is not ok. The inner \<^verbatim>\<open>try\<close> swallows
  the \<^verbatim>\<open>SyntaxError\<close> of \<^verbatim>\<open>JSON.parse\<close> and the \<^verbatim>\<open>TypeError\<close> of \<^verbatim>\<open>null.error\<close>.\<close>

definition ollama_errorMsg :: "engine \<Rightarrow> response \<Rightarrow> json" where
  "ollama_errorMsg eng r =
     (case JSON_parse eng (body_text r) of
        Inl m \<Rightarrow> JStr (statusText r)
      | Inr errorData \<Rightarrow>
          if errorData = JNull then JStr (statusText r)
          else js_or (get_prop errorData ''error'') (JStr (statusText r)))"

text \<open>Lines 214 to 242: the body of the outer \<^verbatim>\<open>try\<close>. The template literal of line 238 throws
  a \<^verbatim>\<open>TypeError\<close> when the message has no string conversion.\<close>

definition ollama_try :: "engine \<Rightarrow> network \<Rightarrow> OllamaClient \<Rightarrow> string \<Rightarrow> thrown + json" where
  "ollama_try eng net c prompt =
     (case snd (net (ollama_request c prompt)) of
        Rejected e \<Rightarrow> Inl e
      | Resolved r \<Rightarrow>
          if \<not> ok r
          then (case ToString (ollama_errorMsg eng r) of
                  None \<Rightarrow> Inl (Error (TypeError_message eng NotPrimitive))
                | Some m \<Rightarrow> Inl (Error (''Ollama API error: '' @ m)))
          else (case JSON_parse eng (body_text r) of
                  Inl m \<Rightarrow> Inl (Error m)
                | Inr data \<Rightarrow>
                    if data = JNull
                    then Inl (Error (TypeError_message eng (PropertyOfNull ''response'')))
                    else Inr (js_or (get_prop data ''response'') (JStr []))))"

text \<open>Lines 243 to 256: the \<^verbatim>\<open>catch\<close>, which always throws.\<close>

definition ollama_catch :: "OllamaClient \<Rightarrow> thrown \<Rightarrow> thrown" where
  "ollama_catch c err =
     (case err of
        Error message \<Rightarrow>
          if str_includes message ''model'' \<and> str_includes message ''not found''
          then Error (''Ollama model '' @ apos @ ollama_model c @ apos @
                      '' not found. Install it with: ollama pull '' @ ollama_model c)
          else err
      | NonError v \<Rightarrow>
          Error (''Unable to connect to Ollama at '' @ ollama_baseURL c @
                 ''. Make sure Ollama is running on the correct port.''))"

definition OllamaClient_query :: "engine \<Rightarrow> network \<Rightarrow> OllamaClient \<Rightarrow> string \<Rightarrow> json async" where
  "OllamaClient_query eng net c prompt =
     (case ollama_try eng net c prompt of
        Inl err \<Rightarrow> (Inl (ollama_catch c err), [ollama_request c prompt])
      | Inr text \<Rightarrow> (Inr text, [ollama_request c prompt]))"

text \<open>\<^verbatim>\<open>queryLLM\<close> (lines 260 to 281).\<close>

definition queryLLM :: "engine \<Rightarrow> network \<Rightarrow> ILLMClientConfig \<Rightarrow> string \<Rightarrow> ILLMResponse async" where
  "queryLLM eng net config prompt =
     (let done = (\<lambda>res. case res of
                     (Inl e, calls) \<Rightarrow> (Inl e, calls)
                   | (Inr c, calls) \<Rightarrow> (Inr \<lparr> content = c, llm_model = model config \<rparr>, calls))
      in if model config = ''openai-gpt4'' \<or> model config = ''openai-gpt3.5''
         then (case apiKey config of
                 None \<Rightarrow> (Inl (Error ''OpenAI API key is required''), [])
               | Some key \<Rightarrow>
                   if key = [] then (Inl (Error ''OpenAI API key is required''), [])
                   else let openaiModel =
                              (if model config = ''openai-gpt4'' then ''gpt-4'' else ''gpt-3.5-turbo'')
                        in done (OpenAIClient_query eng net (new_OpenAIClient key openaiModel) prompt))
         else if model config = ''ollama-free''
         then done (OllamaClient_query eng net (new_OllamaClient (baseURL config) None) prompt)
         else (Inl (Error (''Unknown model: '' @ model config)), []))"

text \<open>The system prompt (lines 17 to 44).\<close>

definition SYSTEM_PROMPT :: string where
  \<open>SYSTEM_PROMPT = join [nl]
    [''You are a Jaeger distributed tracing query assistant. '',
     ''Your job is to convert natural language questions into search filter parameters for Jaeger traces.'',
     '''',
     ''Guidelines:'',
     ''1. Extract the service name from the question (it may be prefixed with "service:", "app:", or just mentioned naturally)'',
     ''2. Extract operation/span name if mentioned (look for "operation:", "span:", "request:", "endpoint:", etc.)'',
     ''3. Extract duration constraints (look for patterns like "slower than", "faster than", "taking more than", "less than", etc.)'',
     ''4. Extract tag filters if applicable (e.g., "error code 500", "status=error")'',
     ''5. Infer if the user is looking for errors, successes, or all traces'',
     ''6. If information is incomplete, make reasonable assumptions and note them'',
     '''',
     ''Always respond in valid JSON format with the following structure (even if some fields are empty):'',
     ''{'',
     ''  "service": "service-name-or-empty-string",'',
     ''  "operation": "operation-name-or-empty-string",'',
     ''  "minDuration": "duration-like-100ms-or-empty-string",'',
     ''  "maxDuration": "duration-like-5s-or-empty-string",'',
     ''  "tags": {},'',
     ''  "status": "error|success|all",'',
     ''  "reasoning": "Explanation of what was extracted and any assumptions made"'',
     ''}'',
     '''',
     ''Examples:'',
     ''Question: "Show me slow requests to the user service"'',
     ''Response: {"service": "user", "operation": "", "minDuration": "500ms", "maxDuration": "", "tags": {}, "status": "all", "reasoning": "Selected user service. Set 500ms minimum to find slow requests."}'',
     '''',
     ''Question: "Find errors in payment processing"'',
     ''Response: {"service": "payment", "operation": "", "minDuration": "", "maxDuration": "", "tags": {"http.status_code": "5xx"}, "status": "error", "reasoning": "Selected payment service, set status filter to errors."}'']\<close>

text \<open>\<^verbatim>\<open>parseNaturalLanguageQuery\<close> (lines 46 to 99): the gateway is awaited outside the \<^verbatim>\<open>try\<close>,
  so its failure passes through unchanged.\<close>

definition build_prompt :: "string \<Rightarrow> string" where
  \<open>build_prompt question =
     SYSTEM_PROMPT @ [nl, nl] @ ''Now parse this question: "'' @ question @ ''"''\<close>

definition parseNaturalLanguageQuery ::
  "engine \<Rightarrow> network \<Rightarrow> string \<Rightarrow> ILLMClientConfig \<Rightarrow> (IParsedQuery \<times> ILLMResponse) async" where
  "parseNaturalLanguageQuery eng net question llmConfig =
     (case queryLLM eng net llmConfig (build_prompt question) of
        (Inl e, calls) \<Rightarrow> (Inl e, calls)
      | (Inr llmResponse, calls) \<Rightarrow>
          (case parse_content eng question (content llmResponse) of
             Inl e \<Rightarrow> (Inl e, calls)
           | Inr parsed \<Rightarrow> (Inr (parsed, llmResponse), calls)))"

section \<open>The orchestrator\<close>

text \<open>The state of the \<^verbatim>\<open>AIAssistantSearch\<close> component (lines 33 to 45) and one entry of its
  history.\<close>

record history_entry =
  question :: string
  timestamp :: int

record ui_state =
  st_question :: string
  selectedModel :: string
  loading :: bool
  showSettings :: bool
  st_apiKey :: string
  ollamaUrl :: string
  parsedQuery :: "IParsedQuery option"
  queryHistory :: "history_entry list"

text \<open>The \<^verbatim>\<open>searchQuery\<close> of lines 91 to 108.\<close>

record search_query =
  sq_service :: string
  sq_operation :: string
  sq_start :: string
  sq_end :: int
  sq_limit :: string
  sq_lookback :: string
  sq_minDuration :: "string option"
  sq_maxDuration :: "string option"
  sq_tags :: "string option"

text \<open>What \<^verbatim>\<open>handleSearch\<close> does to the world besides its own state, in order. The history is
  stored as \<^verbatim>\<open>JSON.stringify\<close> renders it; the model keeps the list.\<close>

datatype effect =
    Message_warning string
  | Message_error string
  | Message_success string
  | Console_error thrown
  | LocalStorage_setItem string "history_entry list"
  | SearchTraces search_query

text \<open>
  The browser: the engine, \<^verbatim>\<open>fetch\<close>, the clock as \<^verbatim>\<open>new Date()\<close> (line 86) and as
  \<^verbatim>\<open>Date.now()\<close> (line 111) read it, in milliseconds, and
  \<^verbatim>\<open>String(lookbackToTimestamp(lookback, now))\<close>, whose function is imported from the search form
  and taken as given.
\<close>

record browser =
  js :: engine
  fetch :: network
  new_Date :: int
  Date_now :: int
  lookbackToTimestamp :: "string \<Rightarrow> int \<Rightarrow> string"

text \<open>\<^verbatim>\<open>String.prototype.trim\<close>, on code units up to 255.\<close>

definition js_whitespace :: "char \<Rightarrow> bool" where
  "js_whitespace c =
     (c \<in> {CHR 0x09, CHR 0x0A, CHR 0x0B, CHR 0x0C, CHR 0x0D, CHR 0x20, CHR 0xA0})"

definition trim :: "string \<Rightarrow> string" where
  "trim s = rev (dropWhile js_whitespace (rev (dropWhile js_whitespace s)))"

text \<open>\<^verbatim>\<open>filters.k || d\<close>.\<close>

definition filter_or :: "filters \<Rightarrow> string \<Rightarrow> string \<Rightarrow> string" where
  "filter_or fs k d = (case map_of fs k of None \<Rightarrow> d | Some v \<Rightarrow> if v \<noteq> [] then v else d)"

text \<open>\<^verbatim>\<open>if (filters.k) { searchQuery.k = filters.k; }\<close>.\<close>

definition filter_if_set :: "filters \<Rightarrow> string \<Rightarrow> string option" where
  "filter_if_set fs k = (case map_of fs k of None \<Rightarrow> None | Some v \<Rightarrow> if v \<noteq> [] then Some v else None)"

definition build_search_query :: "browser \<Rightarrow> filters \<Rightarrow> search_query" where
  "build_search_query b fs =
     \<lparr> sq_service = filter_or fs ''service'' ''-'',
       sq_operation = filter_or fs ''operation'' ''-'',
       sq_start = lookbackToTimestamp b ''1h'' (new_Date b),
       sq_end = new_Date b * 1000,
       sq_limit = ''20'',
       sq_lookback = ''1h'',
       sq_minDuration = filter_if_set fs ''minDuration'',
       sq_maxDuration = filter_if_set fs ''maxDuration'',
       sq_tags = filter_if_set fs ''tags'' \<rparr>"

text \<open>Line 120: what the \<^verbatim>\<open>catch\<close> shows.\<close>

definition error_text :: "thrown \<Rightarrow> string" where
  "error_text e =
     (case e of Error m \<Rightarrow> m | NonError v \<Rightarrow> ''Failed to process question. Please try again.'')"

text \<open>
  Lines 73 to 77 build the configuration from the state. Then
  \<^verbatim>\<open>handleSearch\<close> (lines 54 to 124), run to completion on the state its closure captured: the
  new state, the effects and the requests sent. Three things throw inside its \<^verbatim>\<open>try\<close>: the
  gateway, the extraction, and the filter compiler, which runs after the parsed query is shown
  (line 80). The storage, the search dispatch and the messages are taken to succeed.
\<close>

definition llm_config :: "ui_state \<Rightarrow> ILLMClientConfig" where
  "llm_config st =
     \<lparr> model = selectedModel st,
       apiKey = (if starts_with ''openai'' (selectedModel st) then Some (st_apiKey st) else None),
       baseURL = (if selectedModel st = ''ollama-free'' then Some (ollamaUrl st) else None) \<rparr>"

definition handleSearch :: "browser \<Rightarrow> ui_state \<Rightarrow> ui_state \<times> effect list \<times> request list" where
  "handleSearch b st =
     (if trim (st_question st) = [] then (st, [Message_warning ''Please enter a question''], [])
      else
        let st = st\<lparr>loading := True, parsedQuery := None\<rparr>
        in if (selectedModel st = ''openai-gpt4'' \<or> selectedModel st = ''openai-gpt3.5'')
              \<and> st_apiKey st = []
           then (st\<lparr>showSettings := True, loading := False\<rparr>,
                 [Message_error ''Please configure OpenAI API key in settings''], [])
           else
             (case parseNaturalLanguageQuery (js b) (fetch b) (st_question st) (llm_config st) of
                (Inl error, calls) \<Rightarrow>
                  (st\<lparr>loading := False\<rparr>,
                   [Console_error error, Message_error (error_text error)], calls)
              | (Inr (parsed, llmResponse), calls) \<Rightarrow>
                  let st = st\<lparr>parsedQuery := Some parsed\<rparr>
                  in (case convertParsedQueryToSearchFilters parsed of
                        Inl e \<Rightarrow>
                          let error = Error (TypeError_message (js b) e)
                          in (st\<lparr>loading := False\<rparr>,
                              [Console_error error, Message_error (error_text error)], calls)
                      | Inr filters \<Rightarrow>
                          let searchQuery = build_search_query b filters;
                              newHistory = \<lparr> question = st_question st, timestamp = Date_now b \<rparr>
                                           # take 9 (queryHistory st)
                          in (st\<lparr>queryHistory := newHistory, loading := False\<rparr>,
                              [LocalStorage_setItem ''jaeger-ai-history'' newHistory,
                               SearchTraces searchQuery,
                               Message_success ''Search executed with AI-generated filters''],
                              calls))))"

section \<open>A reference engine\<close>

text \<open>
  The theorems below hold for every engine. To run the model on a concrete text, this section
  gives one: a parser for the JSON texts made of objects, arrays, strings with the
  one-character escapes, integer literals of at most fifteen digits, \<^verbatim>\<open>true\<close>, \<^verbatim>\<open>false\<close> and
  \<^verbatim>\<open>null\<close>, on which it agrees with \<^verbatim>\<open>JSON.parse\<close>. A text with a fraction, an exponent, a
  longer integer or a \<^verbatim>\<open>\u\<close> escape is outside this fragment, and the reference parser reports
  it like a text that is not JSON. The message texts are those of one engine; others word
  them differently.
\<close>

datatype token = LBrace | RBrace | LBracket | RBracket | Colon | Comma | Atom json

datatype lex_mode = Between | InString string | InEscape string | InNumber string | InWord string

definition is_digit :: "char \<Rightarrow> bool" where
  "is_digit c = ((48::nat) \<le> of_char c \<and> of_char c \<le> (57::nat))"

definition is_lower :: "char \<Rightarrow> bool" where
  "is_lower c = ((97::nat) \<le> of_char c \<and> of_char c \<le> (122::nat))"

definition json_whitespace :: "char \<Rightarrow> bool" where
  "json_whitespace c = (c \<in> {CHR 0x20, CHR 0x09, CHR 0x0A, CHR 0x0D})"

definition unescape :: "char \<Rightarrow> char option" where
  "unescape c =
     (if c = CHR 0x22 \<or> c = CHR 0x5C \<or> c = CHR ''/'' then Some c
      else if c = CHR ''b'' then Some (CHR 0x08)
      else if c = CHR ''f'' then Some (CHR 0x0C)
      else if c = CHR ''n'' then Some (CHR 0x0A)
      else if c = CHR ''r'' then Some (CHR 0x0D)
      else if c = CHR ''t'' then Some (CHR 0x09)
      else None)"

text \<open>An integer literal: no leading zero, at most fifteen digits; \<^verbatim>\<open>-0\<close> renders as \<^verbatim>\<open>0\<close>.\<close>

definition number_atom :: "string \<Rightarrow> json option" where
  "number_atom s =
     (let ds = (case s of [] \<Rightarrow> [] | c # cs \<Rightarrow> if c = CHR ''-'' then cs else c # cs)
      in if ds = [] \<or> \<not> list_all is_digit ds \<or> 15 < length ds then None
         else if ds = ''0'' then Some (JNum ''0'')
         else if hd ds = CHR ''0'' then None
         else Some (JNum s))"

definition word_atom :: "string \<Rightarrow> json option" where
  "word_atom s =
     (if s = ''true'' then Some (JBool True)
      else if s = ''false'' then Some (JBool False)
      else if s = ''null'' then Some JNull
      else None)"

text \<open>The lexer reads one character at a time: the mode it moves to and the tokens that
  character completes.\<close>

definition between :: "char \<Rightarrow> (lex_mode \<times> token list) option" where
  "between c =
     (if json_whitespace c then Some (Between, [])
      else if c = CHR ''{'' then Some (Between, [LBrace])
      else if c = CHR ''}'' then Some (Between, [RBrace])
      else if c = CHR ''['' then Some (Between, [LBracket])
      else if c = CHR '']'' then Some (Between, [RBracket])
      else if c = CHR '':'' then Some (Between, [Colon])
      else if c = CHR '','' then Some (Between, [Comma])
      else if c = CHR 0x22 then Some (InString [], [])
      else if c = CHR ''-'' \<or> is_digit c then Some (InNumber [c], [])
      else if is_lower c then Some (InWord [c], [])
      else None)"

definition after_atom :: "json option \<Rightarrow> char \<Rightarrow> (lex_mode \<times> token list) option" where
  "after_atom a c =
     (case a of
        None \<Rightarrow> None
      | Some v \<Rightarrow> (case between c of None \<Rightarrow> None | Some (m, ts) \<Rightarrow> Some (m, Atom v # ts)))"

definition lex_char :: "lex_mode \<Rightarrow> char \<Rightarrow> (lex_mode \<times> token list) option" where
  "lex_char m c =
     (case m of
        Between \<Rightarrow> between c
      | InString acc \<Rightarrow>
          if c = CHR 0x22 then Some (Between, [Atom (JStr (rev acc))])
          else if c = CHR 0x5C then Some (InEscape acc, [])
          else if of_char c < (32::nat) then None
          else Some (InString (c # acc), [])
      | InEscape acc \<Rightarrow>
          (case unescape c of None \<Rightarrow> None | Some d \<Rightarrow> Some (InString (d # acc), []))
      | InNumber acc \<Rightarrow>
          if is_digit c then Some (InNumber (c # acc), [])
          else after_atom (number_atom (rev acc)) c
      | InWord acc \<Rightarrow>
          if is_lower c then Some (InWord (c # acc), [])
          else after_atom (word_atom (rev acc)) c)"

definition lex_end :: "lex_mode \<Rightarrow> token list option" where
  "lex_end m =
     (case m of
        Between \<Rightarrow> Some []
      | InString acc \<Rightarrow> None
      | InEscape acc \<Rightarrow> None
      | InNumber acc \<Rightarrow> map_option (\<lambda>v. [Atom v]) (number_atom (rev acc))
      | InWord acc \<Rightarrow> map_option (\<lambda>v. [Atom v]) (word_atom (rev acc)))"

fun lex :: "lex_mode \<Rightarrow> string \<Rightarrow> token list option" where
  "lex m [] = lex_end m"
| "lex m (c # cs) =
     (case lex_char m c of
        None \<Rightarrow> None
      | Some (m', ts) \<Rightarrow> map_option ((@) ts) (lex m' cs))"

text \<open>The property order of a JavaScript object: array indices first, ascending, then the other
  keys as inserted; a repeated key keeps its place and takes the last value.\<close>

definition index_value :: "string \<Rightarrow> nat" where
  "index_value k = foldl (\<lambda>n c. 10 * n + (of_char c - 48)) (0::nat) k"

fun digits_less :: "string \<Rightarrow> string \<Rightarrow> bool" where
  "digits_less (a # as) (b # bs) = ((of_char a :: nat) < of_char b \<or> (a = b \<and> digits_less as bs))"
| "digits_less as bs = False"

text \<open>An array index is a canonical numeral below \<open>2\<^sup>3\<^sup>2 - 1\<close>.\<close>

definition is_index :: "string \<Rightarrow> bool" where
  "is_index k =
     (k \<noteq> [] \<and> list_all is_digit k \<and> (k = ''0'' \<or> hd k \<noteq> CHR ''0'')
      \<and> (length k < 10 \<or> (length k = 10 \<and> digits_less k ''4294967295'')))"

fun put :: "string \<Rightarrow> json \<Rightarrow> (string \<times> json) list \<Rightarrow> (string \<times> json) list" where
  "put k v [] = [(k, v)]"
| "put k v ((k', v') # kvs) = (if k' = k then (k, v) # kvs else (k', v') # put k v kvs)"

definition js_order :: "(string \<times> json) list \<Rightarrow> (string \<times> json) list" where
  "js_order kvs =
     sort_key (\<lambda>kv. index_value (fst kv)) (filter (\<lambda>kv. is_index (fst kv)) kvs)
     @ filter (\<lambda>kv. \<not> is_index (fst kv)) kvs"

text \<open>The parser proper: a stack of the containers that are open, and what may come next.\<close>

datatype frame =
    ArrElems "json list"
  | ObjOpen "(string \<times> json) list"
  | ObjPending "(string \<times> json) list" string
  | Result json

datatype expect = Value | ArrStart | ArrNext | ObjStart | ObjKey | ObjColon | ObjNext | End

fun deliver :: "json \<Rightarrow> frame list \<Rightarrow> (expect \<times> frame list) option" where
  "deliver v [] = Some (End, [Result v])"
| "deliver v (ArrElems es # st) = Some (ArrNext, ArrElems (es @ [v]) # st)"
| "deliver v (ObjPending kvs k # st) = Some (ObjNext, ObjOpen (put k v kvs) # st)"
| "deliver v st = None"

definition open_value :: "frame list \<Rightarrow> token \<Rightarrow> (expect \<times> frame list) option" where
  "open_value st t =
     (case t of
        Atom v \<Rightarrow> deliver v st
      | LBrace \<Rightarrow> Some (ObjStart, ObjOpen [] # st)
      | LBracket \<Rightarrow> Some (ArrStart, ArrElems [] # st)
      | _ \<Rightarrow> None)"

definition close_array :: "frame list \<Rightarrow> (expect \<times> frame list) option" where
  "close_array st = (case st of ArrElems es # st' \<Rightarrow> deliver (JArr es) st' | _ \<Rightarrow> None)"

definition close_object :: "frame list \<Rightarrow> (expect \<times> frame list) option" where
  "close_object st =
     (case st of ObjOpen kvs # st' \<Rightarrow> deliver (JObj (js_order kvs)) st' | _ \<Rightarrow> None)"

definition open_key :: "frame list \<Rightarrow> token \<Rightarrow> (expect \<times> frame list) option" where
  "open_key st t =
     (case (st, t) of
        (ObjOpen kvs # st', Atom (JStr k)) \<Rightarrow> Some (ObjColon, ObjPending kvs k # st')
      | _ \<Rightarrow> None)"

definition step :: "expect \<Rightarrow> frame list \<Rightarrow> token \<Rightarrow> (expect \<times> frame list) option" where
  "step e st t =
     (case e of
        Value \<Rightarrow> open_value st t
      | ArrStart \<Rightarrow> if t = RBracket then close_array st else open_value st t
      | ArrNext \<Rightarrow>
          if t = Comma then Some (Value, st) else if t = RBracket then close_array st else None
      | ObjStart \<Rightarrow> if t = RBrace then close_object st else open_key st t
      | ObjKey \<Rightarrow> open_key st t
      | ObjColon \<Rightarrow> if t = Colon then Some (Value, st) else None
      | ObjNext \<Rightarrow>
          if t = Comma then Some (ObjKey, st) else if t = RBrace then close_object st else None
      | End \<Rightarrow> None)"

fun parse_tokens :: "expect \<Rightarrow> frame list \<Rightarrow> token list \<Rightarrow> json option" where
  "parse_tokens e st [] = (case (e, st) of (End, [Result v]) \<Rightarrow> Some v | _ \<Rightarrow> None)"
| "parse_tokens e st (t # ts) =
     (case step e st t of None \<Rightarrow> None | Some (e', st') \<Rightarrow> parse_tokens e' st' ts)"

definition reference_parse :: "string \<Rightarrow> string + json" where
  "reference_parse s =
     (case lex Between s of
        None \<Rightarrow> Inl ''Unexpected token in JSON''
      | Some ts \<Rightarrow>
          (case parse_tokens Value [] ts of
             None \<Rightarrow> Inl ''Unexpected token in JSON''
           | Some v \<Rightarrow> Inr v))"

definition reference_message :: "type_error \<Rightarrow> string" where
  "reference_message e =
     (case e of
        PropertyOfNull p \<Rightarrow>
          ''Cannot read properties of null (reading '' @ apos @ p @ apos @ '')''
      | PropertyOfUndefined p \<Rightarrow>
          ''Cannot read properties of undefined (reading '' @ apos @ p @ apos @ '')''
      | NotAFunction f \<Rightarrow> f @ '' is not a function''
      | NotPrimitive \<Rightarrow> ''Cannot convert object to primitive value'')"

definition reference_engine :: engine where
  "reference_engine = \<lparr> JSON_parse = reference_parse, TypeError_message = reference_message \<rparr>"

section \<open>Vocabulary of the properties\<close>

text \<open>The tags of a query as \<^verbatim>\<open>convertParsedQueryToSearchFilters\<close> renders them before it
  looks at the status: nothing when there are no tags to render (or when rendering throws).\<close>

definition rendered_tags :: "IParsedQuery \<Rightarrow> string option" where
  "rendered_tags q = (case copy_tags (tags q) [] of Inl e \<Rightarrow> None | Inr fs \<Rightarrow> map_of fs ''tags'')"

text \<open>The filter set after the four scalar fields are copied (lines 105 to 119), before the
  tags.\<close>

definition copied_fields :: "IParsedQuery \<Rightarrow> filters" where
  "copied_fields q =
     copy_field ''maxDuration'' (maxDuration q)
       (copy_field ''minDuration'' (minDuration q)
         (copy_field ''operation'' (operation q) (copy_field ''service'' (service q) [])))"

text \<open>A query whose tag values all have a string conversion, and a query whose tags are of the
  declared type \<^verbatim>\<open>Record<string, string>\<close>: absent, or an object whose values are strings.\<close>

definition tags_convertible :: "IParsedQuery \<Rightarrow> bool" where
  "tags_convertible q =
     (case tags q of
        None \<Rightarrow> True
      | Some v \<Rightarrow> list_all (\<lambda>kv. ToString (snd kv) \<noteq> None) (entries v))"

fun is_string :: "json \<Rightarrow> bool" where
  "is_string (JStr s) = True"
| "is_string v = False"

fun string_record :: "json \<Rightarrow> bool" where
  "string_record (JObj kvs) = list_all (\<lambda>kv. is_string (snd kv)) kvs"
| "string_record v = False"

definition well_typed_tags :: "IParsedQuery \<Rightarrow> bool" where
  "well_typed_tags q = (case tags q of None \<Rightarrow> True | Some v \<Rightarrow> string_record v)"

text \<open>The keys of a filter set, and the filter sets the search form can take: each key once, each
  from that list, no value empty.\<close>

definition filter_names :: "string set" where
  "filter_names = {''service'', ''operation'', ''minDuration'', ''maxDuration'', ''tags''}"

definition well_formed :: "filters \<Rightarrow> bool" where
  "well_formed fs =
     (distinct (map fst fs) \<and> list_all (\<lambda>kv. fst kv \<in> filter_names \<and> snd kv \<noteq> []) fs)"

text \<open>What the extraction policy speaks of: a text that holds a fenced block labelled
  \<^verbatim>\<open>json\<close> (an opening \<^verbatim>\<open>```json\<close> with a closing fence after it), and a text that holds an
  opening brace with a closing brace after it.\<close>

definition has_fenced_block :: "string \<Rightarrow> bool" where
  "has_fenced_block raw = (\<exists>pre mid post. raw = pre @ fence @ ''json'' @ mid @ fence @ post)"

definition has_braces :: "string \<Rightarrow> bool" where
  "has_braces raw = (\<exists>pre mid post. raw = pre @ ''{'' @ mid @ ''}'' @ post)"

text \<open>Backends to run the model against: a network that settles every request alike after a
  given time, a response of status 200 with a given body, the body in which the local
  backend wraps a completion (a JSON string escapes the quote and the backslash), and the local
  backend that answers with a given completion, with the configuration that selects it.\<close>

definition always :: "nat \<Rightarrow> settled \<Rightarrow> network" where
  "always d s = (\<lambda>r. (d, s))"

definition ok_response :: "string \<Rightarrow> response" where
  "ok_response b = \<lparr> ok = True, statusText = ''OK'', body_text = b \<rparr>"

definition json_quote :: "string \<Rightarrow> string" where
  "json_quote s =
     [CHR 0x22]
     @ concat (map (\<lambda>c. if c = CHR 0x22 \<or> c = CHR 0x5C then [CHR 0x5C, c] else [c]) s)
     @ [CHR 0x22]"

definition completion_body :: "string \<Rightarrow> string" where
  \<open>completion_body completion = ''{"response":'' @ json_quote completion @ ''}''\<close>

definition local_backend :: "nat \<Rightarrow> string \<Rightarrow> network" where
  "local_backend d completion = always d (Resolved (ok_response (completion_body completion)))"

definition local_config :: ILLMClientConfig where
  "local_config = \<lparr> model = ''ollama-free'', apiKey = None, baseURL = None \<rparr>"

definition prose_reply :: string where
  \<open>prose_reply = ''The filters are {"service":"user"} I think''\<close>

definition fenced_reply :: string where
  \<open>fenced_reply =
     ''Sure: '' @ fence @ ''json'' @ [nl] @ ''{"service":"user"}'' @ [nl] @ fence @ '' ok {}''\<close>

text \<open>A history is newest first when no entry is older than one after it. The histories
  a run of \<^verbatim>\<open>handleSearch\<close> writes to the browser's storage under the history key, and the runs
  that get as far as the search: the question is not blank, a hosted model has its key, the
  parser returns a query, and the filter compiler returns its filters.\<close>

definition newest_first :: "history_entry list \<Rightarrow> bool" where
  "newest_first hs = sorted_wrt (\<lambda>a b. timestamp b \<le> timestamp a) hs"

fun stored_histories :: "effect list \<Rightarrow> history_entry list list" where
  "stored_histories [] = []"
| "stored_histories (LocalStorage_setItem k hs # es) =
     (if k = ''jaeger-ai-history'' then hs # stored_histories es else stored_histories es)"
| "stored_histories (e # es) = stored_histories es"

definition completes :: "browser \<Rightarrow> ui_state \<Rightarrow> bool" where
  "completes b st =
     (trim (st_question st) \<noteq> []
      \<and> \<not> ((selectedModel st = ''openai-gpt4'' \<or> selectedModel st = ''openai-gpt3.5'')
             \<and> st_apiKey st = [])
      \<and> (case fst (parseNaturalLanguageQuery (js b) (fetch b) (st_question st) (llm_config st)) of
            Inl e \<Rightarrow> False
          | Inr r \<Rightarrow>
              (case convertParsedQueryToSearchFilters (fst r) of
                 Inl e \<Rightarrow> False
               | Inr filters \<Rightarrow> True)))"

text \<open>A browser and a state to run the orchestrator on: the local backend answers after three
  time units with a completion, and the history already holds ten entries. The lookback function
  stands in for the search form's. In the second browser the backend is down; in the third it
  answers with a tag value that has no string conversion.\<close>

definition demo_browser :: browser where
  \<open>demo_browser =
     \<lparr> js = reference_engine,
       fetch = local_backend 3 ''{"service":"user","minDuration":"500ms","status":"all"}'',
       new_Date = 1700000000000,
       Date_now = 1700000000003,
       lookbackToTimestamp = (\<lambda>lookback now. show_nat (nat ((now - 3600000) * 1000))) \<rparr>\<close>

definition down_browser :: browser where
  "down_browser = demo_browser\<lparr>fetch := always 0 (Rejected (Error ''Failed to fetch''))\<rparr>"

definition odd_browser :: browser where
  \<open>odd_browser =
     demo_browser\<lparr>fetch := local_backend 3 ''{"tags":{"a":{"toString":1}},"status":"error"}''\<rparr>\<close>

definition ten_entries :: "history_entry list" where
  "ten_entries =
     map (\<lambda>n. \<lparr> question = ''earlier'', timestamp = n \<rparr>) [10, 9, 8, 7, 6, 5, 4, 3, 2, 1]"

definition demo_state :: ui_state where
  "demo_state =
     \<lparr> st_question = ''Show me slow requests to the user service'',
       selectedModel = ''ollama-free'', loading = False, showSettings = False,
       st_apiKey = [], ollamaUrl = ''http://localhost:11434'',
       parsedQuery = None, queryHistory = ten_entries \<rparr>"

section \<open>The filter compiler: what it guarantees\<close>

lemma map_of_assign: "map_of (assign k v fs) k' = (if k' = k then Some v else map_of fs k')"
  by (induction fs) auto

lemma keys_assign: "fst ` set (assign k v fs) = insert k (fst ` set fs)"
proof (induction fs)
  case Nil
  then show ?case by simp
next
  case (Cons kv fs)
  obtain k' v' where "kv = (k', v')" by (cases kv)
  then show ?case using Cons.IH by (cases "k' = k") auto
qed

lemma distinct_assign: "distinct (map fst fs) \<Longrightarrow> distinct (map fst (assign k v fs))"
proof (induction fs)
  case Nil
  then show ?case by simp
next
  case (Cons kv fs)
  obtain k' v' where kv: "kv = (k', v')" by (cases kv)
  have "k' \<noteq> k \<Longrightarrow> k' \<notin> set (map fst (assign k v fs))"
    using Cons.prems kv by (simp add: keys_assign)
  with Cons kv show ?case by auto
qed

lemma list_all_assign:
  "list_all P fs \<Longrightarrow> P (k, v) \<Longrightarrow> list_all P (assign k v fs)"
  by (induction fs) auto

lemma well_formed_assign:
  "well_formed fs \<Longrightarrow> k \<in> filter_names \<Longrightarrow> v \<noteq> [] \<Longrightarrow> well_formed (assign k v fs)"
  by (simp add: well_formed_def distinct_assign list_all_assign)

lemma join_nonempty: "xs \<noteq> [] \<Longrightarrow> hd xs \<noteq> [] \<Longrightarrow> join sep xs \<noteq> []"
  by (induction sep xs rule: join.induct) auto

lemma length_index_from: "length (index_from i xs) = length xs"
  by (induction xs arbitrary: i) auto

lemma length_entries: "v \<noteq> JNull \<Longrightarrow> length (entries v) = keys_length v"
  by (cases v) (auto simp: length_index_from)

lemma entries_empty: "\<not> (truthy v \<and> keys_length v > 0) \<Longrightarrow> entries v = []"
  by (cases v) auto

lemma those_Some: "those xs = Some ys \<longleftrightarrow> xs = map Some ys"
  by (induction xs arbitrary: ys) (auto split: option.splits)

lemma those_None: "those xs = None \<longleftrightarrow> None \<in> set xs"
  by (induction xs) (auto split: option.splits)

lemma tag_string_Some: "tag_string kv = Some s \<Longrightarrow> s \<noteq> []"
  by (auto simp: tag_string_def)

lemma tag_string_None: "tag_string kv = None \<longleftrightarrow> ToString (snd kv) = None"
  by (simp add: tag_string_def)

lemma those_tag_strings:
  "those (map tag_string es) \<noteq> None \<longleftrightarrow> list_all (\<lambda>kv. ToString (snd kv) \<noteq> None) es"
  by (induction es) (auto simp: tag_string_def split: option.splits)

lemma tags_rendering_nonempty:
  assumes "truthy v" and "keys_length v > 0" and "those (map tag_string (entries v)) = Some ts"
  shows "join '' '' ts \<noteq> []"
proof -
  from assms(1) have "v \<noteq> JNull" by auto
  with assms(2) have "entries v \<noteq> []" using length_entries [of v] by auto
  from assms(3) have m: "map tag_string (entries v) = map Some ts" by (simp add: those_Some)
  with \<open>entries v \<noteq> []\<close> have ne: "ts \<noteq> []" by auto
  from m ne \<open>entries v \<noteq> []\<close> have "tag_string (hd (entries v)) = Some (hd ts)"
    by (cases "entries v"; cases ts) auto
  then have "hd ts \<noteq> []" by (rule tag_string_Some)
  with ne show ?thesis by (rule join_nonempty)
qed

lemma copy_tags_from_empty:
  "copy_tags t fs =
     (case copy_tags t [] of
        Inl e \<Rightarrow> Inl e
      | Inr g \<Rightarrow> Inr (case map_of g ''tags'' of None \<Rightarrow> fs | Some s \<Rightarrow> assign ''tags'' s fs))"
  by (simp add: copy_tags_def split: option.splits)

lemma copy_tags_rendered:
  assumes "copy_tags (tags q) fs = Inr fs'"
  shows "fs' = (case rendered_tags q of None \<Rightarrow> fs | Some s \<Rightarrow> assign ''tags'' s fs)"
  using assms
  by (subst (asm) copy_tags_from_empty) (auto simp: rendered_tags_def split: sum.splits)

lemma copy_tags_throws: "copy_tags t fs = Inl e \<Longrightarrow> e = NotPrimitive"
  by (auto simp: copy_tags_def split: option.splits if_splits)

lemma copy_tags_returns_iff:
  "(\<exists>fs'. copy_tags (tags q) fs = Inr fs') \<longleftrightarrow> tags_convertible q"
proof (cases "tags q")
  case None
  then show ?thesis by (simp add: copy_tags_def tags_convertible_def)
next
  case (Some v)
  show ?thesis
  proof (cases "truthy v \<and> keys_length v > 0")
    case False
    then have "entries v = []" by (rule entries_empty)
    with Some False show ?thesis by (auto simp: copy_tags_def tags_convertible_def)
  next
    case True
    have "those (map tag_string (entries v)) \<noteq> None
            \<longleftrightarrow> list_all (\<lambda>kv. ToString (snd kv) \<noteq> None) (entries v)"
      by (rule those_tag_strings)
    with Some True show ?thesis
      by (auto simp: copy_tags_def tags_convertible_def split: option.splits)
  qed
qed

lemma well_typed_convertible: "well_typed_tags q \<Longrightarrow> tags_convertible q"
proof (cases "tags q")
  case None
  then show ?thesis by (simp add: tags_convertible_def)
next
  case (Some v)
  assume "well_typed_tags q"
  with Some have "string_record v" by (simp add: well_typed_tags_def)
  then obtain kvs where v: "v = JObj kvs" and s: "list_all (\<lambda>kv. is_string (snd kv)) kvs"
    by (cases v) auto
  have "ToString x \<noteq> None" if "is_string x" for x using that by (cases x) auto
  with s have "list_all (\<lambda>kv. ToString (snd kv) \<noteq> None) kvs" by (auto simp: list_all_iff)
  with Some v show ?thesis by (simp add: tags_convertible_def)
qed

lemma rendered_tags_nonempty: "rendered_tags q \<noteq> Some []"
  by (auto simp: rendered_tags_def copy_tags_def map_of_assign
        dest: tags_rendering_nonempty split: option.splits sum.splits if_splits)

lemma well_formed_copy_field:
  "well_formed fs \<Longrightarrow> k \<in> filter_names \<Longrightarrow> well_formed (copy_field k x fs)"
  by (auto simp: copy_field_def well_formed_assign split: option.splits)

lemma well_formed_copy_tags:
  fixes q :: IParsedQuery
  assumes "well_formed fs" and "copy_tags (tags q) fs = Inr fs'"
  shows "well_formed fs'"
proof (cases "rendered_tags q")
  case None
  with copy_tags_rendered [OF assms(2)] assms(1) show ?thesis by simp
next
  case (Some s)
  with rendered_tags_nonempty [of q] have "s \<noteq> []" by auto
  with Some copy_tags_rendered [OF assms(2)] assms(1) show ?thesis
    by (simp add: well_formed_assign filter_names_def)
qed

lemma well_formed_append_marker:
  "well_formed fs \<Longrightarrow> marker \<noteq> [] \<Longrightarrow> well_formed (append_marker marker fs)"
  by (auto simp: append_marker_def Let_def filter_names_def intro!: well_formed_assign)

lemma payment_filters: \<open>convertParsedQueryToSearchFilters
       \<lparr> service = Some ''payment'', operation = None, minDuration = None, maxDuration = None,
         tags = Some (JObj [(''http.status_code'', JStr ''5xx'')]),
         status = Some (JStr ''error''),
         natural_language_question = ''Find errors in payment processing'' \<rparr>
     = Inr [(''service'', ''payment''),
            (''tags'', ''http.status_code="5xx" otel.status_code="ERROR"'')]\<close>
  by (simp add: convertParsedQueryToSearchFilters_def copy_field_def copy_tags_def tag_string_def
        append_marker_def)

lemma slow_filters: \<open>convertParsedQueryToSearchFilters
       \<lparr> service = Some ''user'', operation = None, minDuration = Some ''500ms'',
         maxDuration = None, tags = None, status = Some (JStr ''all''),
         natural_language_question = ''Show me slow requests to the user service'' \<rparr>
     = Inr [(''service'', ''user''), (''minDuration'', ''500ms'')]\<close>
  by (simp add: convertParsedQueryToSearchFilters_def copy_field_def copy_tags_def tag_string_def
        append_marker_def)

lemma odd_filters: \<open>convertParsedQueryToSearchFilters
       \<lparr> service = None, operation = None, minDuration = None, maxDuration = None,
         tags = Some (JObj [(''a'', JObj [(''toString'', JNum ''1'')])]),
         status = Some (JStr ''error''), natural_language_question = ''q'' \<rparr>
     = Inl NotPrimitive\<close>
  by (simp add: convertParsedQueryToSearchFilters_def copy_field_def copy_tags_def tag_string_def
        append_marker_def)

lemma sparse_filters: "convertParsedQueryToSearchFilters
     \<lparr> service = Some [], operation = Some ''GET /users'', minDuration = Some [],
       maxDuration = Some ''5s'', tags = Some (JObj []), status = Some (JStr ''all''),
       natural_language_question = ''q'' \<rparr>
   = Inr [(''operation'', ''GET /users''), (''maxDuration'', ''5s'')]"
  by (simp add: convertParsedQueryToSearchFilters_def copy_field_def copy_tags_def)

lemma convert_unfold:
  \<open>convertParsedQueryToSearchFilters q =
     (case copy_tags (tags q) (copied_fields q) of
        Inl e \<Rightarrow> Inl e
      | Inr fs \<Rightarrow>
          Inr (if status q = Some (JStr ''error'') then append_marker ''otel.status_code="ERROR"'' fs
               else if status q = Some (JStr ''success'') then append_marker ''otel.status_code="OK"'' fs
               else fs))\<close>
  by (simp add: convertParsedQueryToSearchFilters_def copied_fields_def Let_def)

lemma map_of_copy_field: "map_of (copy_field k x fs) k' =
   (if k' = k \<and> x \<noteq> None \<and> x \<noteq> Some [] then x else map_of fs k')"
  by (auto simp: copy_field_def map_of_assign split: option.splits)

lemma tags_of_copied_fields: "map_of (copied_fields q) ''tags'' = None"
  by (simp add: copied_fields_def map_of_copy_field)

lemma well_formed_copied_fields: "well_formed (copied_fields q)"
proof -
  have 0: "well_formed []" by (simp add: well_formed_def)
  have n: "''service'' \<in> filter_names" "''operation'' \<in> filter_names"
    "''minDuration'' \<in> filter_names" "''maxDuration'' \<in> filter_names"
    by (simp_all add: filter_names_def)
  show ?thesis
    unfolding copied_fields_def
    by (intro well_formed_copy_field n 0)
qed

lemma map_of_append_marker:
  "map_of (append_marker m fs) ''tags'' =
     Some (case map_of fs ''tags'' of None \<Rightarrow> m | Some t \<Rightarrow> if t \<noteq> [] then t @ '' '' @ m else m)"
  by (auto simp: append_marker_def Let_def map_of_assign split: option.splits)

lemma convert_returns_iff:
  "(\<exists>fs. convertParsedQueryToSearchFilters q = Inr fs) \<longleftrightarrow> tags_convertible q"
proof -
  have "(\<exists>fs. convertParsedQueryToSearchFilters q = Inr fs)
          \<longleftrightarrow> (\<exists>g. copy_tags (tags q) (copied_fields q) = Inr g)"
    by (auto simp: convert_unfold split: sum.splits)
  then show ?thesis by (simp only: copy_tags_returns_iff)
qed

lemma convert_throws:
  assumes "\<not> tags_convertible q"
  shows "convertParsedQueryToSearchFilters q = Inl NotPrimitive"
proof -
  from assms have "\<not> (\<exists>g. copy_tags (tags q) (copied_fields q) = Inr g)"
    using copy_tags_returns_iff [of q "copied_fields q"] by blast
  then obtain e where e: "copy_tags (tags q) (copied_fields q) = Inl e"
    by (cases "copy_tags (tags q) (copied_fields q)") auto
  with copy_tags_throws [OF e] show ?thesis by (simp add: convert_unfold)
qed

lemma convert_Inr:
  assumes "convertParsedQueryToSearchFilters q = Inr fs"
  obtains g where "copy_tags (tags q) (copied_fields q) = Inr g"
    and "map_of g ''tags'' = rendered_tags q"
    and \<open>fs = (if status q = Some (JStr ''error'') then append_marker ''otel.status_code="ERROR"'' g
               else if status q = Some (JStr ''success'') then append_marker ''otel.status_code="OK"'' g
               else g)\<close>
proof -
  from assms obtain g where g: "copy_tags (tags q) (copied_fields q) = Inr g"
    and fs: \<open>fs = (if status q = Some (JStr ''error'') then append_marker ''otel.status_code="ERROR"'' g
               else if status q = Some (JStr ''success'') then append_marker ''otel.status_code="OK"'' g
               else g)\<close>
    by (auto simp: convert_unfold split: sum.splits)
  from copy_tags_rendered [OF g] have "map_of g ''tags'' = rendered_tags q"
    by (cases "rendered_tags q") (simp_all add: tags_of_copied_fields map_of_assign)
  with g fs that show ?thesis by blast
qed

lemma convert_well_formed:
  assumes "convertParsedQueryToSearchFilters q = Inr fs"
  shows "well_formed fs"
proof -
  from assms obtain g where g: "copy_tags (tags q) (copied_fields q) = Inr g"
    and fs: \<open>fs = (if status q = Some (JStr ''error'') then append_marker ''otel.status_code="ERROR"'' g
               else if status q = Some (JStr ''success'') then append_marker ''otel.status_code="OK"'' g
               else g)\<close>
    by (rule convert_Inr)
  from well_formed_copy_tags [OF well_formed_copied_fields g] have "well_formed g" .
  with fs show ?thesis by (simp add: well_formed_append_marker)
qed

lemma convert_tags:
  assumes "convertParsedQueryToSearchFilters q = Inr fs"
  shows \<open>(status q = Some (JStr ''error'') \<longrightarrow>
            map_of fs ''tags'' =
              Some (case rendered_tags q of
                      None \<Rightarrow> ''otel.status_code="ERROR"''
                    | Some t \<Rightarrow> t @ '' '' @ ''otel.status_code="ERROR"''))
        \<and> (status q = Some (JStr ''success'') \<longrightarrow>
            map_of fs ''tags'' =
              Some (case rendered_tags q of
                      None \<Rightarrow> ''otel.status_code="OK"''
                    | Some t \<Rightarrow> t @ '' '' @ ''otel.status_code="OK"''))
        \<and> (status q = Some (JStr ''all'') \<longrightarrow> map_of fs ''tags'' = rendered_tags q)\<close>
proof -
  from assms obtain g where r: "map_of g ''tags'' = rendered_tags q"
    and fs: \<open>fs = (if status q = Some (JStr ''error'') then append_marker ''otel.status_code="ERROR"'' g
               else if status q = Some (JStr ''success'') then append_marker ''otel.status_code="OK"'' g
               else g)\<close>
    by (rule convert_Inr)
  have m: "map_of (append_marker m g) ''tags''
             = Some (case rendered_tags q of None \<Rightarrow> m | Some t \<Rightarrow> t @ '' '' @ m)" for m
    using rendered_tags_nonempty [of q]
    by (simp add: map_of_append_marker r split: option.splits)
  show ?thesis
    unfolding fs by (simp add: m r del: map_of_eq_Some_iff)
qed

text \<open>
  Claim C4. \<^verbatim>\<open>convertParsedQueryToSearchFilters\<close> returns a filter set exactly when every tag
  value of the query has a string conversion, which holds for every query whose tags are of the
  declared type \<^verbatim>\<open>Record<string, string>\<close>; otherwise the template literal of line 125 throws a
  \<^verbatim>\<open>TypeError\<close> and nothing is returned. Every filter set it returns ends its tags string with
  \<^verbatim>\<open>otel.status_code="ERROR"\<close> when the status is \<^verbatim>\<open>error\<close> and with \<^verbatim>\<open>otel.status_code="OK"\<close>
  when it is \<^verbatim>\<open>success\<close>: after the rendered tags and one space when there are tags, alone and
  with no leading space when there are none (the rendered tags are never the empty string). With
  status \<^verbatim>\<open>all\<close> the tags string is the rendered tags and nothing more. Tags \<^verbatim>\<open>{"a":"b"}\<close> with
  status \<^verbatim>\<open>error\<close> give \<^verbatim>\<open>a="b" otel.status_code="ERROR"\<close>, and no tags with status \<^verbatim>\<open>success\<close>
  give \<^verbatim>\<open>otel.status_code="OK"\<close>.
\<close>

theorem status_marker_appended:
  \<open>((\<exists>fs. convertParsedQueryToSearchFilters q = Inr fs) \<longleftrightarrow> tags_convertible q)
   \<and> (\<not> tags_convertible q \<longrightarrow> convertParsedQueryToSearchFilters q = Inl NotPrimitive)
   \<and> (well_typed_tags q \<longrightarrow> tags_convertible q)
   \<and> (\<forall>fs. convertParsedQueryToSearchFilters q = Inr fs \<longrightarrow>
        (status q = Some (JStr ''error'') \<longrightarrow>
           map_of fs ''tags'' =
             Some (case rendered_tags q of
                     None \<Rightarrow> ''otel.status_code="ERROR"''
                   | Some t \<Rightarrow> t @ '' '' @ ''otel.status_code="ERROR"''))
      \<and> (status q = Some (JStr ''success'') \<longrightarrow>
           map_of fs ''tags'' =
             Some (case rendered_tags q of
                     None \<Rightarrow> ''otel.status_code="OK"''
                   | Some t \<Rightarrow> t @ '' '' @ ''otel.status_code="OK"''))
      \<and> (status q = Some (JStr ''all'') \<longrightarrow> map_of fs ''tags'' = rendered_tags q))
   \<and> rendered_tags q \<noteq> Some []
   \<and> (tags q = Some (JObj [(''a'', JStr ''b'')]) \<and> status q = Some (JStr ''error'') \<longrightarrow>
        (\<exists>fs. convertParsedQueryToSearchFilters q = Inr fs
            \<and> map_of fs ''tags'' = Some ''a="b" otel.status_code="ERROR"''))
   \<and> (tags q = None \<and> status q = Some (JStr ''success'') \<longrightarrow>
        (\<exists>fs. convertParsedQueryToSearchFilters q = Inr fs
            \<and> map_of fs ''tags'' = Some ''otel.status_code="OK"''))\<close>
proof -
  have ex1: \<open>\<exists>fs. convertParsedQueryToSearchFilters q = Inr fs
            \<and> map_of fs ''tags'' = Some ''a="b" otel.status_code="ERROR"''\<close>
    if a: "tags q = Some (JObj [(''a'', JStr ''b'')]) \<and> status q = Some (JStr ''error'')"
  proof -
    from a have "tags_convertible q" by (simp add: tags_convertible_def)
    then obtain fs where fs: "convertParsedQueryToSearchFilters q = Inr fs"
      using convert_returns_iff by blast
    from a have \<open>rendered_tags q = Some ''a="b"''\<close>
      by (simp add: rendered_tags_def copy_tags_def tag_string_def)
    with convert_tags [OF fs] a have \<open>map_of fs ''tags'' = Some ''a="b" otel.status_code="ERROR"''\<close>
      by simp
    with fs show ?thesis by blast
  qed
  have ex2: \<open>\<exists>fs. convertParsedQueryToSearchFilters q = Inr fs
            \<and> map_of fs ''tags'' = Some ''otel.status_code="OK"''\<close>
    if a: "tags q = None \<and> status q = Some (JStr ''success'')"
  proof -
    from a have "tags_convertible q" by (simp add: tags_convertible_def)
    then obtain fs where fs: "convertParsedQueryToSearchFilters q = Inr fs"
      using convert_returns_iff by blast
    from a have "rendered_tags q = None"
      by (simp add: rendered_tags_def copy_tags_def)
    with convert_tags [OF fs] a have \<open>map_of fs ''tags'' = Some ''otel.status_code="OK"''\<close>
      by simp
    with fs show ?thesis by blast
  qed
  from convert_returns_iff [of q] convert_throws [of q] well_typed_convertible [of q]
    convert_tags [of q] rendered_tags_nonempty [of q] ex1 ex2
  show ?thesis by (intro conjI impI allI) blast+
qed

text \<open>The two end-to-end examples of the specification, and a query whose tag value is an
  object with a property \<^verbatim>\<open>toString\<close> that is no function: the compiler throws.\<close>

theorem status_marker_appended_witness:
  \<open>convertParsedQueryToSearchFilters
       \<lparr> service = Some ''payment'', operation = None, minDuration = None, maxDuration = None,
         tags = Some (JObj [(''http.status_code'', JStr ''5xx'')]),
         status = Some (JStr ''error''),
         natural_language_question = ''Find errors in payment processing'' \<rparr>
     = Inr [(''service'', ''payment''),
            (''tags'', ''http.status_code="5xx" otel.status_code="ERROR"'')]
   \<and> convertParsedQueryToSearchFilters
       \<lparr> service = Some ''user'', operation = None, minDuration = Some ''500ms'',
         maxDuration = None, tags = None, status = Some (JStr ''all''),
         natural_language_question = ''Show me slow requests to the user service'' \<rparr>
     = Inr [(''service'', ''user''), (''minDuration'', ''500ms'')]
   \<and> \<not> tags_convertible
       \<lparr> service = None, operation = None, minDuration = None, maxDuration = None,
         tags = Some (JObj [(''a'', JObj [(''toString'', JNum ''1'')])]),
         status = Some (JStr ''error''), natural_language_question = ''q'' \<rparr>
   \<and> convertParsedQueryToSearchFilters
       \<lparr> service = None, operation = None, minDuration = None, maxDuration = None,
         tags = Some (JObj [(''a'', JObj [(''toString'', JNum ''1'')])]),
         status = Some (JStr ''error''), natural_language_question = ''q'' \<rparr>
     = Inl NotPrimitive\<close>
  using status_marker_appended
    [of "\<lparr> service = Some ''payment'', operation = None, minDuration = None, maxDuration = None,
         tags = Some (JObj [(''http.status_code'', JStr ''5xx'')]),
         status = Some (JStr ''error''),
         natural_language_question = ''Find errors in payment processing'' \<rparr>"]
    status_marker_appended
    [of "\<lparr> service = Some ''user'', operation = None, minDuration = Some ''500ms'',
         maxDuration = None, tags = None, status = Some (JStr ''all''),
         natural_language_question = ''Show me slow requests to the user service'' \<rparr>"]
    status_marker_appended
    [of "\<lparr> service = None, operation = None, minDuration = None, maxDuration = None,
         tags = Some (JObj [(''a'', JObj [(''toString'', JNum ''1'')])]),
         status = Some (JStr ''error''), natural_language_question = ''q'' \<rparr>"]
  by (simp add: payment_filters slow_filters odd_filters tags_convertible_def well_typed_tags_def
        rendered_tags_def copy_tags_def tag_string_def del: map_of_eq_Some_iff)

lemma copy_field_empty: "copy_field k (Some []) fs = copy_field k None fs"
  by (simp add: copy_field_def)

lemma copy_tags_empty: "copy_tags (Some (JObj [])) fs = copy_tags None fs"
  by (simp add: copy_tags_def)

text \<open>
  Claim C10. Every filter set that \<^verbatim>\<open>convertParsedQueryToSearchFilters\<close> returns has each key at
  most once, every key is one of \<^verbatim>\<open>service\<close>, \<^verbatim>\<open>operation\<close>, \<^verbatim>\<open>minDuration\<close>, \<^verbatim>\<open>maxDuration\<close> and
  \<^verbatim>\<open>tags\<close>, and no value is the empty string. It returns one for every query whose tags are of
  the declared type, whatever else the query holds, and more generally exactly when every tag
  value has a string conversion. A field that is present but empty, and an empty tags mapping,
  are compiled as if they were absent.
\<close>

theorem filters_never_empty:
  "(\<forall>fs. convertParsedQueryToSearchFilters q = Inr fs \<longrightarrow> well_formed fs)
   \<and> (well_typed_tags q \<longrightarrow> (\<exists>fs. convertParsedQueryToSearchFilters q = Inr fs))
   \<and> ((\<exists>fs. convertParsedQueryToSearchFilters q = Inr fs) \<longleftrightarrow> tags_convertible q)
   \<and> (service q = Some [] \<longrightarrow>
        convertParsedQueryToSearchFilters q = convertParsedQueryToSearchFilters (q\<lparr>service := None\<rparr>))
   \<and> (operation q = Some [] \<longrightarrow>
        convertParsedQueryToSearchFilters q = convertParsedQueryToSearchFilters (q\<lparr>operation := None\<rparr>))
   \<and> (minDuration q = Some [] \<longrightarrow>
        convertParsedQueryToSearchFilters q = convertParsedQueryToSearchFilters (q\<lparr>minDuration := None\<rparr>))
   \<and> (maxDuration q = Some [] \<longrightarrow>
        convertParsedQueryToSearchFilters q = convertParsedQueryToSearchFilters (q\<lparr>maxDuration := None\<rparr>))
   \<and> (tags q = Some (JObj []) \<longrightarrow>
        convertParsedQueryToSearchFilters q = convertParsedQueryToSearchFilters (q\<lparr>tags := None\<rparr>))"
proof (intro conjI impI allI)
  fix fs assume "convertParsedQueryToSearchFilters q = Inr fs"
  then show "well_formed fs" by (rule convert_well_formed)
next
  assume "well_typed_tags q"
  then show "\<exists>fs. convertParsedQueryToSearchFilters q = Inr fs"
    using well_typed_convertible convert_returns_iff by blast
next
  show "(\<exists>fs. convertParsedQueryToSearchFilters q = Inr fs) \<longleftrightarrow> tags_convertible q"
    by (rule convert_returns_iff)
qed (simp_all add: convert_unfold copied_fields_def copy_field_empty copy_tags_empty
      cong: sum.case_cong if_cong)

text \<open>A query with an empty service, an empty minimal duration and an empty tags mapping.\<close>

theorem filters_never_empty_witness:
  "well_typed_tags
     \<lparr> service = Some [], operation = Some ''GET /users'', minDuration = Some [],
       maxDuration = Some ''5s'', tags = Some (JObj []), status = Some (JStr ''all''),
       natural_language_question = ''q'' \<rparr>
   \<and> convertParsedQueryToSearchFilters
     \<lparr> service = Some [], operation = Some ''GET /users'', minDuration = Some [],
       maxDuration = Some ''5s'', tags = Some (JObj []), status = Some (JStr ''all''),
       natural_language_question = ''q'' \<rparr>
   = Inr [(''operation'', ''GET /users''), (''maxDuration'', ''5s'')]
   \<and> well_formed [(''operation'', ''GET /users''), (''maxDuration'', ''5s'')]"
  using filters_never_empty
    [of "\<lparr> service = Some [], operation = Some ''GET /users'', minDuration = Some [],
       maxDuration = Some ''5s'', tags = Some (JObj []), status = Some (JStr ''all''),
       natural_language_question = ''q'' \<rparr>"]
  by (simp add: sparse_filters well_typed_tags_def tags_convertible_def)

section \<open>The LLM client: what it guarantees\<close>

lemmas reference_simps =
  reference_engine_def reference_parse_def lex_char_def between_def after_atom_def lex_end_def
  json_whitespace_def is_digit_def is_lower_def unescape_def number_atom_def word_atom_def
  step_def open_value_def open_key_def close_array_def close_object_def js_order_def
  is_index_def reference_message_def

text \<open>
  Claim C5. \<^verbatim>\<open>queryLLM\<close> on a hosted model (\<^verbatim>\<open>openai-gpt4\<close> or \<^verbatim>\<open>openai-gpt3.5\<close>) whose API key is
  missing or empty fails with the error \<^verbatim>\<open>OpenAI API key is required\<close> and sends no request:
  the adapter is never called. On a model outside the three known names it fails with
  \<^verbatim>\<open>Unknown model: \<close> followed by that name, again without a request. The code has one error
  class, \<^verbatim>\<open>Error\<close>; the message tells the configuration errors apart.
\<close>

theorem gateway_preconditions:
  "((model config = ''openai-gpt4'' \<or> model config = ''openai-gpt3.5'')
      \<and> (apiKey config = None \<or> apiKey config = Some []) \<longrightarrow>
        queryLLM eng net config prompt = (Inl (Error ''OpenAI API key is required''), []))
   \<and> (model config \<noteq> ''openai-gpt4'' \<and> model config \<noteq> ''openai-gpt3.5''
      \<and> model config \<noteq> ''ollama-free'' \<longrightarrow>
        queryLLM eng net config prompt = (Inl (Error (''Unknown model: '' @ model config)), []))"
  by (auto simp: queryLLM_def)

text \<open>The two cases on a hosted model without a key and on a model nobody knows.\<close>

theorem gateway_preconditions_witness:
  "queryLLM reference_engine (always 0 (Rejected (Error ''unreachable'')))
       \<lparr> model = ''openai-gpt4'', apiKey = None, baseURL = None \<rparr> ''p''
     = (Inl (Error ''OpenAI API key is required''), [])
   \<and> queryLLM reference_engine (always 0 (Rejected (Error ''unreachable'')))
       \<lparr> model = ''gpt-5'', apiKey = Some ''k'', baseURL = None \<rparr> ''p''
     = (Inl (Error ''Unknown model: gpt-5''), [])"
  using gateway_preconditions
          [of "\<lparr> model = ''openai-gpt4'', apiKey = None, baseURL = None \<rparr>"
              reference_engine "always 0 (Rejected (Error ''unreachable''))" "''p''"]
        gateway_preconditions
          [of "\<lparr> model = ''gpt-5'', apiKey = Some ''k'', baseURL = None \<rparr>"
              reference_engine "always 0 (Rejected (Error ''unreachable''))" "''p''"]
  by simp

text \<open>
  Claim C7. When the hosted backend answers with a success status and a body whose \<^verbatim>\<open>choices\<close>
  array is empty, \<^verbatim>\<open>OpenAIClient.query\<close> returns the empty string, and \<^verbatim>\<open>queryLLM\<close> hands its
  caller a response with that empty content: a result, not an error. (The claim speaks of a
  response with no completion choice; a body with no \<^verbatim>\<open>choices\<close> field at all is not such a
  response of the chat completions endpoint, and is not covered.)
\<close>

theorem empty_choices_give_empty_text:
  assumes "model config = ''openai-gpt4'' \<or> model config = ''openai-gpt3.5''"
    and "apiKey config = Some key" and "key \<noteq> []"
    and "c = new_OpenAIClient key (if model config = ''openai-gpt4'' then ''gpt-4'' else ''gpt-3.5-turbo'')"
    and "snd (net (openai_request c prompt)) = Resolved r" and "ok r"
    and "JSON_parse eng (body_text r) = Inr data"
    and "get_prop data ''choices'' = Some (JArr [])"
  shows "OpenAIClient_query eng net c prompt = (Inr (JStr []), [openai_request c prompt])
    \<and> queryLLM eng net config prompt
        = (Inr \<lparr> content = JStr [], llm_model = model config \<rparr>, [openai_request c prompt])"
proof -
  from assms(8) have "data \<noteq> JNull" by auto
  with assms(5-8) have q: "OpenAIClient_query eng net c prompt = (Inr (JStr []), [openai_request c prompt])"
    by (simp add: OpenAIClient_query_def Let_def first_choice_content_def opt_chain_def js_or_def)
  with assms(1-4) show ?thesis
    by (auto simp: queryLLM_def Let_def)
qed

text \<open>The hosted backend answering \<^verbatim>\<open>{"id":"x","choices":[]}\<close>.\<close>

theorem empty_choices_give_empty_text_witness:
  \<open>queryLLM reference_engine (always 1 (Resolved (ok_response ''{"id":"x","choices":[]}'')))
       \<lparr> model = ''openai-gpt3.5'', apiKey = Some ''sk-1'', baseURL = None \<rparr> ''p''
     = (Inr \<lparr> content = JStr [], llm_model = ''openai-gpt3.5'' \<rparr>,
        [openai_request (new_OpenAIClient ''sk-1'' ''gpt-3.5-turbo'') ''p''])\<close>
proof -
  have p: \<open>JSON_parse reference_engine ''{"id":"x","choices":[]}''
            = Inr (JObj [(''id'', JStr ''x''), (''choices'', JArr [])])\<close>
    by (simp add: reference_simps)
  show ?thesis
    using empty_choices_give_empty_text
      [of "\<lparr> model = ''openai-gpt3.5'', apiKey = Some ''sk-1'', baseURL = None \<rparr>" "''sk-1''"
          "new_OpenAIClient ''sk-1'' ''gpt-3.5-turbo''"
          \<open>always 1 (Resolved (ok_response ''{"id":"x","choices":[]}''))\<close> "''p''"
          \<open>ok_response ''{"id":"x","choices":[]}''\<close> reference_engine
          "JObj [(''id'', JStr ''x''), (''choices'', JArr [])]"] p
    by (simp add: always_def ok_response_def)
qed

text \<open>The \<^verbatim>\<open>catch\<close> of the local adapter, case by case: an error whose message holds both
  \<^verbatim>\<open>model\<close> and \<^verbatim>\<open>not found\<close> becomes the instruction to pull the model, any other \<^verbatim>\<open>Error\<close>
  passes unchanged, and only a thrown value that is not an \<^verbatim>\<open>Error\<close> becomes the message that
  names the endpoint.\<close>

lemma model_absent_reported:
  assumes "str_includes m ''model''" and "str_includes m ''not found''"
  shows "ollama_catch c (Error m) =
    Error (''Ollama model '' @ apos @ ollama_model c @ apos @
           '' not found. Install it with: ollama pull '' @ ollama_model c)"
  using assms by (simp add: ollama_catch_def)

lemma error_passes_catch:
  "\<not> (str_includes m ''model'' \<and> str_includes m ''not found'') \<Longrightarrow>
     ollama_catch c (Error m) = Error m"
  by (auto simp: ollama_catch_def)

lemma non_error_reported_unreachable:
  "ollama_catch c (NonError v) =
     Error (''Unable to connect to Ollama at '' @ ollama_baseURL c @
            ''. Make sure Ollama is running on the correct port.'')"
  by (simp add: ollama_catch_def)

text \<open>
  Claim C6, at the input where the code departs from it. When the connection fails, \<^verbatim>\<open>fetch\<close>
  rejects with a \<^verbatim>\<open>TypeError\<close> (in Chrome its message is \<^verbatim>\<open>Failed to fetch\<close>), which is an
  \<^verbatim>\<open>Error\<close>: the local adapter rethrows it as it is. The message that names the endpoint
  (\<^verbatim>\<open>Unable to connect to Ollama at ...\<close>) is not produced, although the comment above the
  \<^verbatim>\<open>catch\<close> announces a helpful error when Ollama is not running.
\<close>

theorem connection_fault_rethrown:
  "OllamaClient_query eng (always d (Rejected (Error ''Failed to fetch''))) c prompt
     = (Inl (Error ''Failed to fetch''), [ollama_request c prompt])"
  by (simp add: OllamaClient_query_def ollama_try_def always_def ollama_catch_def)

text \<open>The gateway and the parser on the local backend that answers with a completion \<open>c\<close>.\<close>

lemma gateway_on_local_backend:
  assumes "JSON_parse eng (completion_body c) = Inr (JObj [(''response'', JStr c)])" and "c \<noteq> []"
  shows "queryLLM eng (local_backend d c) local_config p
    = (Inr \<lparr> content = JStr c, llm_model = ''ollama-free'' \<rparr>,
       [ollama_request (new_OllamaClient None None) p])"
  using assms
  by (simp add: queryLLM_def local_config_def local_backend_def OllamaClient_query_def
        ollama_try_def always_def ok_response_def js_or_def)

lemma parser_on_local_backend:
  assumes "JSON_parse eng (completion_body c) = Inr (JObj [(''response'', JStr c)])" and "c \<noteq> []"
    and "parse_content eng q (JStr c) = Inr parsed"
  shows "fst (parseNaturalLanguageQuery eng (local_backend d c) q local_config)
    = Inr (parsed, \<lparr> content = JStr c, llm_model = ''ollama-free'' \<rparr>)"
  using assms(3)
  by (simp add: parseNaturalLanguageQuery_def gateway_on_local_backend [OF assms(1,2)])

lemma body_hi: \<open>JSON_parse reference_engine (completion_body ''hi'') = Inr (JObj [(''response'', JStr ''hi'')])\<close>
  by (simp add: completion_body_def json_quote_def reference_simps)

text \<open>
  Claim C1 says that \<^verbatim>\<open>queryLLM\<close> fails with a timeout when the network call takes longer than
  10 time units. It does not: a local backend that answers after 11 units has its answer
  returned, and the caller has waited the 11 units.
\<close>

theorem slow_reply_accepted:
  "queryLLM reference_engine (local_backend 11 ''hi'') local_config ''p''
     = (Inr \<lparr> content = JStr ''hi'', llm_model = ''ollama-free'' \<rparr>,
        [ollama_request (new_OllamaClient None None) ''p''])
   \<and> elapsed (local_backend 11 ''hi'') [ollama_request (new_OllamaClient None None) ''p''] = 11"
  using gateway_on_local_backend [OF body_hi, of 11 "''p''"]
  by (simp add: elapsed_def local_backend_def always_def)

text \<open>Neither adapter looks at the time a request takes.\<close>

lemma OpenAIClient_query_delay:
  "OpenAIClient_query eng (\<lambda>r. (d r, snd (net r))) c prompt = OpenAIClient_query eng net c prompt"
  by (simp add: OpenAIClient_query_def)

lemma OllamaClient_query_delay:
  "OllamaClient_query eng (\<lambda>r. (d r, snd (net r))) c prompt = OllamaClient_query eng net c prompt"
  by (simp add: OllamaClient_query_def ollama_try_def)

lemma OpenAIClient_query_calls: "snd (OpenAIClient_query eng net c prompt) = [openai_request c prompt]"
  by (simp add: OpenAIClient_query_def Let_def)

lemma OllamaClient_query_calls: "snd (OllamaClient_query eng net c prompt) = [ollama_request c prompt]"
  by (simp add: OllamaClient_query_def split: sum.splits)

lemma snd_tagged:
  "snd (case res of (Inl e, calls) \<Rightarrow> (Inl e, calls) | (Inr c, calls) \<Rightarrow> (Inr (f c), calls))
     = snd res"
  by (cases res; cases "fst res") auto

lemma queryLLM_calls: "length (snd (queryLLM eng net config prompt)) \<le> 1"
  by (simp add: queryLLM_def Let_def snd_tagged OpenAIClient_query_calls OllamaClient_query_calls
      split: option.splits)

text \<open>
  Claim C1, as the code has it. \<^verbatim>\<open>queryLLM\<close> sets no deadline: whatever time \<open>d\<close> each request
  takes, it settles with the same outcome and the same requests; it sends at most one request,
  and its caller waits exactly as long as that request takes. (The repository's timeout of 10
  seconds is \<^verbatim>\<open>fetchWithTimeout\<close> of the trace API client, which the LLM client does not use.)
\<close>

theorem gateway_sets_no_deadline:
  "queryLLM eng (\<lambda>r. (d r, snd (net r))) config prompt = queryLLM eng net config prompt
   \<and> length (snd (queryLLM eng net config prompt)) \<le> 1
   \<and> elapsed (\<lambda>r. (d r, snd (net r))) (snd (queryLLM eng net config prompt))
       = (case snd (queryLLM eng net config prompt) of [] \<Rightarrow> 0 | r # rs \<Rightarrow> d r)"
proof (intro conjI)
  show "queryLLM eng (\<lambda>r. (d r, snd (net r))) config prompt = queryLLM eng net config prompt"
    by (simp add: queryLLM_def Let_def OpenAIClient_query_delay OllamaClient_query_delay
          split: option.splits)
  show len: "length (snd (queryLLM eng net config prompt)) \<le> 1"
    by (rule queryLLM_calls)
  show "elapsed (\<lambda>r. (d r, snd (net r))) (snd (queryLLM eng net config prompt))
       = (case snd (queryLLM eng net config prompt) of [] \<Rightarrow> 0 | r # rs \<Rightarrow> d r)"
    using len by (cases "snd (queryLLM eng net config prompt)") (auto simp: elapsed_def)
qed

section \<open>Finding the JSON in a reply\<close>

lemma starts_with_iff: "starts_with p s \<longleftrightarrow> (\<exists>r. s = p @ r)"
  by (induction p s rule: starts_with.induct) auto

lemma starts_with_drop: "starts_with p s \<Longrightarrow> s = p @ drop (length p) s"
  by (auto simp: starts_with_iff)

lemma find_after_None: "find_after p s = None \<longleftrightarrow> \<not> (\<exists>pre r. s = pre @ p @ r)"
proof (induction s)
  case Nil
  then show ?case by auto
next
  case (Cons c cs)
  show ?case
  proof (cases "starts_with p (c # cs)")
    case True
    then have "c # cs = [] @ p @ drop (length p) (c # cs)"
      using starts_with_drop by fastforce
    then have "\<exists>pre r. c # cs = pre @ p @ r" by blast
    with True show ?thesis by simp
  next
    case False
    have "(\<exists>pre r. c # cs = pre @ p @ r) \<longleftrightarrow> (\<exists>pre r. cs = pre @ p @ r)"
    proof
      assume "\<exists>pre r. c # cs = pre @ p @ r"
      then obtain pre r where e: "c # cs = pre @ p @ r" by blast
      from False e have "pre \<noteq> []" by (auto simp: starts_with_iff)
      then obtain pre' where "pre = c # pre'" using e by (cases pre) auto
      with e have "cs = pre' @ p @ r" by simp
      then show "\<exists>pre r. cs = pre @ p @ r" by blast
    next
      assume "\<exists>pre r. cs = pre @ p @ r"
      then obtain pre r where "cs = pre @ p @ r" by blast
      then have "c # cs = (c # pre) @ p @ r" by simp
      then show "\<exists>pre r. c # cs = pre @ p @ r" by blast
    qed
    with False Cons show ?thesis by simp
  qed
qed

lemma find_after_Some:
  "find_after p s = Some r \<Longrightarrow>
     \<exists>pre. s = pre @ p @ r \<and> (\<forall>pre' r'. s = pre' @ p @ r' \<longrightarrow> length pre \<le> length pre')"
proof (induction s)
  case Nil
  then show ?case by (auto split: if_splits)
next
  case (Cons c cs)
  show ?case
  proof (cases "starts_with p (c # cs)")
    case True
    with Cons.prems have "r = drop (length p) (c # cs)" by simp
    with True have "c # cs = [] @ p @ r" using starts_with_drop by fastforce
    then show ?thesis by (intro exI [of _ "[]"]) simp
  next
    case False
    with Cons.prems have "find_after p cs = Some r" by simp
    from Cons.IH [OF this] obtain pre where
      pre: "cs = pre @ p @ r" and least: "\<forall>pre' r'. cs = pre' @ p @ r' \<longrightarrow> length pre \<le> length pre'"
      by blast
    have "length (c # pre) \<le> length pre'" if e: "c # cs = pre' @ p @ r'" for pre' r'
    proof -
      from False e have "pre' \<noteq> []" by (auto simp: starts_with_iff)
      then obtain q where q: "pre' = c # q" using e by (cases pre') auto
      with e have "cs = q @ p @ r'" by simp
      with least have "length pre \<le> length q" by blast
      with q show ?thesis by simp
    qed
    moreover from pre have "c # cs = (c # pre) @ p @ r" by simp
    ultimately show ?thesis by blast
  qed
qed

lemma lazy_capture_None: "lazy_capture s = None \<longleftrightarrow> \<not> (\<exists>a b. s = a @ fence @ b)"
proof (induction s)
  case Nil
  then show ?case by (simp add: fence_def)
next
  case (Cons c cs)
  show ?case
  proof (cases "starts_with fence (c # cs) \<or> starts_with (nl # fence) (c # cs)")
    case True
    then have "\<exists>a b. c # cs = a @ fence @ b"
    proof
      assume "starts_with fence (c # cs)"
      then obtain r where "c # cs = [] @ fence @ r" by (auto simp: starts_with_iff)
      then show ?thesis by blast
    next
      assume "starts_with (nl # fence) (c # cs)"
      then obtain r where "c # cs = [nl] @ fence @ r" by (auto simp: starts_with_iff)
      then show ?thesis by blast
    qed
    with True show ?thesis by (simp del: starts_with.simps)
  next
    case False
    have "(\<exists>a b. c # cs = a @ fence @ b) \<longleftrightarrow> (\<exists>a b. cs = a @ fence @ b)"
    proof
      assume "\<exists>a b. c # cs = a @ fence @ b"
      then obtain a b where e: "c # cs = a @ fence @ b" by blast
      from False e have "a \<noteq> []" by (auto simp: starts_with_iff)
      then obtain a' where "a = c # a'" using e by (cases a) auto
      with e have "cs = a' @ fence @ b" by simp
      then show "\<exists>a b. cs = a @ fence @ b" by blast
    next
      assume "\<exists>a b. cs = a @ fence @ b"
      then obtain a b where "cs = a @ fence @ b" by blast
      then have "c # cs = (c # a) @ fence @ b" by simp
      then show "\<exists>a b. c # cs = a @ fence @ b" by blast
    qed
    with False Cons show ?thesis by (simp del: starts_with.simps)
  qed
qed

lemma lazy_capture_Some:
  "lazy_capture s = Some inner \<Longrightarrow>
     \<exists>n2 post. s = inner @ n2 @ fence @ post \<and> (n2 = [] \<or> n2 = [nl])
       \<and> (\<forall>a b. s = a @ fence @ b \<longrightarrow> length (inner @ n2) \<le> length a)"
proof (induction s arbitrary: inner)
  case Nil
  then show ?case by simp
next
  case (Cons c cs)
  show ?case
  proof (cases "starts_with fence (c # cs)")
    case True
    with Cons.prems have "inner = []" by simp
    moreover from True obtain r where "c # cs = fence @ r" by (auto simp: starts_with_iff)
    ultimately show ?thesis by (intro exI [of _ "[]"] exI [of _ r]) simp
  next
    case nofence: False
    show ?thesis
    proof (cases "starts_with (nl # fence) (c # cs)")
      case True
      with Cons.prems have i: "inner = []" by simp
      from True obtain r where r: "c # cs = [nl] @ fence @ r" by (auto simp: starts_with_iff)
      have "length [nl] \<le> length a" if "c # cs = a @ fence @ b" for a b
      proof -
        from nofence that have "a \<noteq> []" by (auto simp: starts_with_iff)
        then show ?thesis by (cases a) auto
      qed
      with i r show ?thesis by (intro exI [of _ "[nl]"] exI [of _ r]) simp
    next
      case False
      with nofence Cons.prems obtain inner' where
        i: "inner = c # inner'" and l: "lazy_capture cs = Some inner'"
        by auto
      from Cons.IH [OF l] obtain n2 post where
        d: "cs = inner' @ n2 @ fence @ post" and n: "n2 = [] \<or> n2 = [nl]"
        and least: "\<forall>a b. cs = a @ fence @ b \<longrightarrow> length (inner' @ n2) \<le> length a"
        by blast
      have "length (inner @ n2) \<le> length a" if e: "c # cs = a @ fence @ b" for a b
      proof -
        from nofence e have "a \<noteq> []" by (auto simp: starts_with_iff)
        then obtain a' where a: "a = c # a'" using e by (cases a) auto
        with e have "cs = a' @ fence @ b" by simp
        with least have "length (inner' @ n2) \<le> length a'" by blast
        with a i show ?thesis by simp
      qed
      with i d n show ?thesis by (intro exI [of _ n2] exI [of _ post]) simp
    qed
  qed
qed


lemma tail_of_longer: "x @ y = u @ v \<Longrightarrow> length x \<le> length u \<Longrightarrow> \<exists>w. y = w @ v"
  by (auto simp: append_eq_append_conv2)

lemma strip_newline_keeps_fence:
  assumes "r = a @ fence @ b"
  shows "\<exists>a'. strip_newline r = a' @ fence @ b"
proof (cases a)
  case Nil
  with assms have "strip_newline r = [] @ fence @ b"
    by (simp add: strip_newline_def fence_def nl_def)
  then show ?thesis by blast
next
  case (Cons c a')
  show ?thesis
  proof (cases "c = nl")
    case True
    with Cons assms have "strip_newline r = a' @ fence @ b" by (simp add: strip_newline_def)
    then show ?thesis by blast
  next
    case False
    with Cons assms have "strip_newline r = a @ fence @ b" by (simp add: strip_newline_def)
    then show ?thesis by blast
  qed
qed

lemma strip_newline_split:
  "\<exists>n1. r = n1 @ strip_newline r \<and> (n1 = [] \<or> n1 = [nl])
        \<and> (n1 = [] \<longrightarrow> \<not> starts_with [nl] (strip_newline r))"
proof (cases r)
  case Nil
  then show ?thesis by (simp add: strip_newline_def)
next
  case (Cons c cs)
  show ?thesis
  proof (cases "c = nl")
    case True
    with Cons have "r = [nl] @ strip_newline r" by (simp add: strip_newline_def)
    then show ?thesis by blast
  next
    case False
    with Cons have "r = [] @ strip_newline r" "\<not> starts_with [nl] (strip_newline r)"
      by (auto simp: strip_newline_def)
    then show ?thesis by blast
  qed
qed

lemma match_fenced_unfold:
  "match_fenced s =
     (case find_after (fence @ ''json'') s of None \<Rightarrow> None | Some r \<Rightarrow> lazy_capture (strip_newline r))"
  by (simp add: match_fenced_def)

lemma match_fenced_Some:
  assumes "match_fenced s = Some inner"
  shows "\<exists>pre n1 n2 post.
           s = pre @ fence @ ''json'' @ n1 @ inner @ n2 @ fence @ post
         \<and> (n1 = [] \<or> n1 = [nl]) \<and> (n2 = [] \<or> n2 = [nl])
         \<and> (\<forall>pre' r'. s = pre' @ fence @ ''json'' @ r' \<longrightarrow> length pre \<le> length pre')
         \<and> (\<forall>a b. inner @ n2 @ fence @ post = a @ fence @ b \<longrightarrow> length (inner @ n2) \<le> length a)
         \<and> (n1 = [] \<longrightarrow> \<not> starts_with [nl] (inner @ n2 @ fence @ post))"
proof -
  from assms obtain r where f: "find_after (fence @ ''json'') s = Some r"
    and l: "lazy_capture (strip_newline r) = Some inner"
    by (auto simp: match_fenced_unfold split: option.splits)
  from find_after_Some [OF f] obtain pre where
    pre: "s = pre @ (fence @ ''json'') @ r"
    and first: "\<forall>pre' r'. s = pre' @ (fence @ ''json'') @ r' \<longrightarrow> length pre \<le> length pre'"
    by blast
  from strip_newline_split [of r] obtain n1 where
    n1: "r = n1 @ strip_newline r" "n1 = [] \<or> n1 = [nl]"
        "n1 = [] \<longrightarrow> \<not> starts_with [nl] (strip_newline r)"
    by blast
  from lazy_capture_Some [OF l] obtain n2 post where
    n2: "strip_newline r = inner @ n2 @ fence @ post" "n2 = [] \<or> n2 = [nl]"
        "\<forall>a b. strip_newline r = a @ fence @ b \<longrightarrow> length (inner @ n2) \<le> length a"
    by blast
  from pre n1(1) n2(1) have "s = pre @ fence @ ''json'' @ n1 @ inner @ n2 @ fence @ post"
    by simp
  moreover from first have "\<forall>pre' r'. s = pre' @ fence @ ''json'' @ r' \<longrightarrow> length pre \<le> length pre'"
    by simp
  moreover from n2(1,3) have
    "\<forall>a b. inner @ n2 @ fence @ post = a @ fence @ b \<longrightarrow> length (inner @ n2) \<le> length a"
    by simp
  moreover from n1(3) n2(1) have "n1 = [] \<longrightarrow> \<not> starts_with [nl] (inner @ n2 @ fence @ post)"
    by simp
  ultimately show ?thesis using n1(2) n2(2) by blast
qed

lemma match_fenced_None: "match_fenced s = None \<longleftrightarrow> \<not> has_fenced_block s"
proof
  assume none: "match_fenced s = None"
  show "\<not> has_fenced_block s"
  proof
    assume "has_fenced_block s"
    then obtain pre mid post where e: "s = pre @ (fence @ ''json'') @ mid @ fence @ post"
      by (auto simp: has_fenced_block_def)
    then have "find_after (fence @ ''json'') s \<noteq> None"
      using find_after_None [of "fence @ ''json''" s] by blast
    then obtain r where f: "find_after (fence @ ''json'') s = Some r" by auto
    from find_after_Some [OF f] obtain pre0 where
      p0: "s = pre0 @ (fence @ ''json'') @ r"
      and first: "\<forall>pre' r'. s = pre' @ (fence @ ''json'') @ r' \<longrightarrow> length pre0 \<le> length pre'"
      by blast
    from first e have le: "length pre0 \<le> length pre" by blast
    from p0 e have "(pre0 @ fence @ ''json'') @ r = (pre @ fence @ ''json'' @ mid) @ fence @ post"
      by simp
    from tail_of_longer [OF this] le obtain w where "r = w @ fence @ post" by auto
    from strip_newline_keeps_fence [OF this] obtain a' where
      "strip_newline r = a' @ fence @ post" by blast
    then have "lazy_capture (strip_newline r) \<noteq> None"
      using lazy_capture_None [of "strip_newline r"] by blast
    with f none show False by (simp add: match_fenced_unfold)
  qed
next
  assume no: "\<not> has_fenced_block s"
  show "match_fenced s = None"
  proof (rule ccontr)
    assume "match_fenced s \<noteq> None"
    then obtain inner where "match_fenced s = Some inner" by auto
    from match_fenced_Some [OF this] obtain pre n1 n2 post where
      "s = pre @ fence @ ''json'' @ n1 @ inner @ n2 @ fence @ post" by blast
    then have "s = pre @ fence @ ''json'' @ (n1 @ inner @ n2) @ fence @ post" by simp
    then have "has_fenced_block s" unfolding has_fenced_block_def by blast
    with no show False by contradiction
  qed
qed

lemma match_plain_Some:
  "match_plain s = Some span \<longleftrightarrow>
     (\<exists>pre mid post. s = pre @ ''{'' @ mid @ ''}'' @ post
        \<and> CHR ''{'' \<notin> set pre \<and> CHR ''}'' \<notin> set post \<and> span = ''{'' @ mid @ ''}'')"
proof
  assume m: "match_plain s = Some span"
  define r where "r = dropWhile (\<lambda>c. c \<noteq> CHR ''{'') s"
  define pre where "pre = takeWhile (\<lambda>c. c \<noteq> CHR ''{'') s"
  define post where "post = rev (takeWhile (\<lambda>c. c \<noteq> CHR ''}'') (rev r))"
  from m have in_r: "CHR ''}'' \<in> set r"
    and span: "span = rev (dropWhile (\<lambda>c. c \<noteq> CHR ''}'') (rev r))"
    by (auto simp: match_plain_def Let_def r_def split: if_splits)
  have s: "s = pre @ r" by (simp add: pre_def r_def)
  have pre: "CHR ''{'' \<notin> set pre"
    using set_takeWhileD [of "CHR ''{''" "\<lambda>c. c \<noteq> CHR ''{''" s] by (auto simp: pre_def)
  have post: "CHR ''}'' \<notin> set post"
    using set_takeWhileD [of "CHR ''}''" "\<lambda>c. c \<noteq> CHR ''}''" "rev r"] by (auto simp: post_def)
  have r: "r = span @ post"
  proof -
    have "rev r = takeWhile (\<lambda>c. c \<noteq> CHR ''}'') (rev r) @ dropWhile (\<lambda>c. c \<noteq> CHR ''}'') (rev r)"
      by simp
    then have "rev (rev r) = rev (dropWhile (\<lambda>c. c \<noteq> CHR ''}'') (rev r))
                 @ rev (takeWhile (\<lambda>c. c \<noteq> CHR ''}'') (rev r))"
      by (metis rev_append)
    then show ?thesis by (simp add: span post_def)
  qed
  from in_r have "r \<noteq> []" by auto
  then have hd_r: "hd r = CHR ''{''"
    using hd_dropWhile [of "\<lambda>c. c \<noteq> CHR ''{''" s] by (simp add: r_def)
  from in_r have "dropWhile (\<lambda>c. c \<noteq> CHR ''}'') (rev r) \<noteq> []"
    by (simp add: dropWhile_eq_Nil_conv) 
  then have ne: "rev span \<noteq> []" and "hd (rev span) = CHR ''}''"
    using hd_dropWhile [of "\<lambda>c. c \<noteq> CHR ''}''" "rev r"] by (auto simp: span)
  then have last_span: "last span = CHR ''}''" and span_ne: "span \<noteq> []"
    by (auto simp: hd_rev)
  from span_ne r hd_r have hd_span: "hd span = CHR ''{''" by (cases span) auto
  from span_ne hd_span obtain rest where rest: "span = CHR ''{'' # rest" by (cases span) auto
  with last_span have "rest \<noteq> []" by auto
  with rest last_span have "last rest = CHR ''}''" by auto
  with \<open>rest \<noteq> []\<close> obtain mid where "rest = mid @ [CHR ''}'']"
    by (metis append_butlast_last_id)
  with rest have sp: "span = ''{'' @ mid @ ''}''" by simp
  with s r have "s = pre @ ''{'' @ mid @ ''}'' @ post" by simp
  with pre post sp show "\<exists>pre mid post. s = pre @ ''{'' @ mid @ ''}'' @ post
        \<and> CHR ''{'' \<notin> set pre \<and> CHR ''}'' \<notin> set post \<and> span = ''{'' @ mid @ ''}''"
    by blast
next
  assume "\<exists>pre mid post. s = pre @ ''{'' @ mid @ ''}'' @ post
        \<and> CHR ''{'' \<notin> set pre \<and> CHR ''}'' \<notin> set post \<and> span = ''{'' @ mid @ ''}''"
  then obtain pre mid post where s: "s = pre @ ''{'' @ mid @ ''}'' @ post"
    and pre: "CHR ''{'' \<notin> set pre" and post: "CHR ''}'' \<notin> set post"
    and span: "span = ''{'' @ mid @ ''}''"
    by blast
  from pre have "dropWhile (\<lambda>c. c \<noteq> CHR ''{'') s = ''{'' @ mid @ ''}'' @ post"
    unfolding s by (subst dropWhile_append2) auto
  moreover from post have
    "dropWhile (\<lambda>c. c \<noteq> CHR ''}'') (rev post @ ''}'' @ rev mid @ ''{'') = ''}'' @ rev mid @ ''{''"
    by (subst dropWhile_append2) auto
  ultimately show "match_plain s = Some span"
    by (simp add: match_plain_def Let_def span)
qed

lemma match_plain_None: "match_plain s = None \<longleftrightarrow> \<not> has_braces s"
proof
  assume none: "match_plain s = None"
  show "\<not> has_braces s"
  proof
    assume "has_braces s"
    then obtain pre mid post where s: "s = pre @ ''{'' @ mid @ ''}'' @ post"
      by (auto simp: has_braces_def)
    have "s = takeWhile (\<lambda>c. c \<noteq> CHR ''{'') s @ dropWhile (\<lambda>c. c \<noteq> CHR ''{'') s" by simp
    have "CHR ''{'' \<in> set s" using s by simp
    have "length (takeWhile (\<lambda>c. c \<noteq> CHR ''{'') s) \<le> length pre"
      unfolding s by (induction pre) auto
    moreover have "takeWhile (\<lambda>c. c \<noteq> CHR ''{'') s @ dropWhile (\<lambda>c. c \<noteq> CHR ''{'') s
                     = (pre @ ''{'' @ mid) @ ''}'' @ post"
      using s by simp
    ultimately obtain w where "dropWhile (\<lambda>c. c \<noteq> CHR ''{'') s = w @ ''}'' @ post"
      using tail_of_longer [of "takeWhile (\<lambda>c. c \<noteq> CHR ''{'') s" "dropWhile (\<lambda>c. c \<noteq> CHR ''{'') s"
                               "pre @ ''{'' @ mid" "''}'' @ post"]
      by auto
    then have "CHR ''}'' \<in> set (dropWhile (\<lambda>c. c \<noteq> CHR ''{'') s)" by simp
    with none show False by (simp add: match_plain_def Let_def)
  qed
next
  assume no: "\<not> has_braces s"
  show "match_plain s = None"
  proof (rule ccontr)
    assume "match_plain s \<noteq> None"
    then obtain span where "match_plain s = Some span" by auto
    then have "has_braces s" unfolding has_braces_def match_plain_Some by blast
    with no show False by contradiction
  qed
qed

section \<open>The query parser: what it guarantees\<close>

text \<open>What holds of every query the parser returns: it is the normal form of a parsed value
  other than \<^verbatim>\<open>null\<close>; the question is the caller's; no string field is empty; the tags, when
  present, are a non-empty object or array; the status is the payload's when that is truthy
  and \<^verbatim>\<open>all\<close> otherwise.\<close>

lemma parse_content_Inr:
  "parse_content eng q c = Inr p \<Longrightarrow>
     \<exists>raw v. c = JStr raw \<and> JSON_parse eng (extract_json raw) = Inr v \<and> v \<noteq> JNull
        \<and> p = normalize q v"
  by (auto simp: parse_content_def split: json.splits sum.splits if_splits)

lemma status_defaults:
  "status (normalize q v) = Some (js_or (get_prop v ''status'') (JStr ''all''))"
  by (simp add: normalize_def)

lemma absent_status_is_all:
  "get_prop v ''status'' = None \<Longrightarrow> status (normalize q v) = Some (JStr ''all'')"
  by (simp add: normalize_def js_or_def)

lemma nonempty_or_undefined_nonempty: "nonempty_or_undefined x \<noteq> Some []"
  by (simp add: nonempty_or_undefined_def split: option.splits)

lemma normalize_tags_Some:
  "normalize_tags x = Some t \<Longrightarrow> truthy t \<and> typeof_object t \<and> keys_length t > 0"
  by (simp add: normalize_tags_def split: option.splits if_splits)

lemma parsed_fields_normalized:
  assumes "parse_content eng q c = Inr p"
  shows "natural_language_question p = q
    \<and> service p \<noteq> Some [] \<and> operation p \<noteq> Some []
    \<and> minDuration p \<noteq> Some [] \<and> maxDuration p \<noteq> Some []
    \<and> (\<forall>t. tags p = Some t \<longrightarrow> truthy t \<and> typeof_object t \<and> keys_length t > 0)"
proof -
  from parse_content_Inr [OF assms] obtain v where p: "p = normalize q v" by blast
  show ?thesis
    unfolding p
    by (simp add: normalize_def nonempty_or_undefined_nonempty normalize_tags_Some)
qed

lemma extract_json_cases:
  "(has_fenced_block raw \<longrightarrow> match_fenced raw = Some (extract_json raw))
   \<and> (\<not> has_fenced_block raw \<and> has_braces raw \<longrightarrow> match_plain raw = Some (extract_json raw))
   \<and> (\<not> has_fenced_block raw \<and> \<not> has_braces raw \<longrightarrow> extract_json raw = raw)"
  using match_fenced_None [of raw] match_plain_None [of raw]
  by (auto simp: extract_json_def split: option.splits)

text \<open>
  Claim C3, as the code has it. The text handed to \<^verbatim>\<open>JSON.parse\<close> is
  \<^item> when the reply holds a fenced \<^verbatim>\<open>json\<close> block: the interior of the first one, from its opening
    (less one newline) to the first fence after it (less one newline);
  \<^item> otherwise, when it holds an opening brace with a closing brace after it: the span from the
    first opening brace to the last closing brace;
  \<^item> otherwise the whole reply.

  The parser fails when \<^verbatim>\<open>JSON.parse\<close> rejects that text, with the message
  \<^verbatim>\<open>Failed to parse LLM response as JSON: \<close> followed by the engine's own message, and when the
  text parses to \<^verbatim>\<open>null\<close>, with the same prefix and the engine's \<^verbatim>\<open>TypeError\<close> message; the code
  adds no excerpt of the reply of its own. In every other case it succeeds, also when the
  parsed value is not an object.
\<close>

theorem extraction_policy:
  "(has_fenced_block raw \<longrightarrow>
      (\<exists>pre n1 n2 post.
          raw = pre @ fence @ ''json'' @ n1 @ extract_json raw @ n2 @ fence @ post
        \<and> (n1 = [] \<or> n1 = [nl]) \<and> (n2 = [] \<or> n2 = [nl])
        \<and> (\<forall>pre' r'. raw = pre' @ fence @ ''json'' @ r' \<longrightarrow> length pre \<le> length pre')
        \<and> (\<forall>a b. extract_json raw @ n2 @ fence @ post = a @ fence @ b
                \<longrightarrow> length (extract_json raw @ n2) \<le> length a)))
   \<and> (\<not> has_fenced_block raw \<and> has_braces raw \<longrightarrow>
      (\<exists>pre mid post.
          raw = pre @ ''{'' @ mid @ ''}'' @ post
        \<and> CHR ''{'' \<notin> set pre \<and> CHR ''}'' \<notin> set post
        \<and> extract_json raw = ''{'' @ mid @ ''}''))
   \<and> (\<not> has_fenced_block raw \<and> \<not> has_braces raw \<longrightarrow> extract_json raw = raw)
   \<and> (\<forall>m. JSON_parse eng (extract_json raw) = Inl m \<longrightarrow>
        parse_content eng q (JStr raw)
          = Inl (Error (''Failed to parse LLM response as JSON: '' @ m)))
   \<and> (JSON_parse eng (extract_json raw) = Inr JNull \<longrightarrow>
        parse_content eng q (JStr raw)
          = Inl (Error (''Failed to parse LLM response as JSON: ''
                        @ TypeError_message eng (PropertyOfNull ''service''))))
   \<and> (\<forall>v. JSON_parse eng (extract_json raw) = Inr v \<and> v \<noteq> JNull \<longrightarrow>
        parse_content eng q (JStr raw) = Inr (normalize q v))"
proof (intro conjI impI allI)
  assume "has_fenced_block raw"
  then have "match_fenced raw = Some (extract_json raw)"
    using extract_json_cases [of raw] by blast
  from match_fenced_Some [OF this]
  show "\<exists>pre n1 n2 post.
          raw = pre @ fence @ ''json'' @ n1 @ extract_json raw @ n2 @ fence @ post
        \<and> (n1 = [] \<or> n1 = [nl]) \<and> (n2 = [] \<or> n2 = [nl])
        \<and> (\<forall>pre' r'. raw = pre' @ fence @ ''json'' @ r' \<longrightarrow> length pre \<le> length pre')
        \<and> (\<forall>a b. extract_json raw @ n2 @ fence @ post = a @ fence @ b
                \<longrightarrow> length (extract_json raw @ n2) \<le> length a)"
    by blast
next
  assume "\<not> has_fenced_block raw \<and> has_braces raw"
  then have "match_plain raw = Some (extract_json raw)"
    using extract_json_cases [of raw] by blast
  then show "\<exists>pre mid post.
          raw = pre @ ''{'' @ mid @ ''}'' @ post
        \<and> CHR ''{'' \<notin> set pre \<and> CHR ''}'' \<notin> set post
        \<and> extract_json raw = ''{'' @ mid @ ''}''"
    unfolding match_plain_Some .
next
  assume "\<not> has_fenced_block raw \<and> \<not> has_braces raw"
  then show "extract_json raw = raw"
    using extract_json_cases [of raw] by blast
next
  fix m assume "JSON_parse eng (extract_json raw) = Inl m"
  then show "parse_content eng q (JStr raw)
          = Inl (Error (''Failed to parse LLM response as JSON: '' @ m))"
    by (simp add: parse_content_def parse_failure_def)
next
  assume "JSON_parse eng (extract_json raw) = Inr JNull"
  then show "parse_content eng q (JStr raw)
          = Inl (Error (''Failed to parse LLM response as JSON: ''
                        @ TypeError_message eng (PropertyOfNull ''service'')))"
    by (simp add: parse_content_def parse_failure_def)
next
  fix v assume "JSON_parse eng (extract_json raw) = Inr v \<and> v \<noteq> JNull"
  then show "parse_content eng q (JStr raw) = Inr (normalize q v)"
    by (simp add: parse_content_def)
qed

text \<open>A reply with a fenced block and, after it, a pair of braces (the block wins); a reply with
  an object within prose; a reply with neither.\<close>

lemma fenced_reply_has_block: "has_fenced_block fenced_reply"
  unfolding has_fenced_block_def fenced_reply_def
  by (rule exI [of _ "''Sure: ''"], rule exI [of _ \<open>[nl] @ ''{"service":"user"}'' @ [nl]\<close>],
      rule exI [of _ "'' ok {}''"]) simp

lemma fenced_reply_extract: \<open>extract_json fenced_reply = ''{"service":"user"}''\<close>
  by (simp add: extract_json_def match_fenced_def strip_newline_def fenced_reply_def fence_def
        nl_def)

lemma prose_reply_extract:
  \<open>\<not> has_fenced_block prose_reply \<and> has_braces prose_reply
   \<and> extract_json prose_reply = ''{"service":"user"}''\<close>
proof -
  have f: "match_fenced prose_reply = None"
    by (simp add: match_fenced_def prose_reply_def fence_def)
  have p: \<open>match_plain prose_reply = Some ''{"service":"user"}''\<close>
    by (simp add: match_plain_def prose_reply_def)
  from f have "\<not> has_fenced_block prose_reply" by (simp add: match_fenced_None)
  moreover from p have "has_braces prose_reply"
    using match_plain_None [of prose_reply] by auto
  moreover from f p have \<open>extract_json prose_reply = ''{"service":"user"}''\<close>
    by (simp add: extract_json_def)
  ultimately show ?thesis by blast
qed

lemma hello_extract:
  "\<not> has_fenced_block ''hello'' \<and> \<not> has_braces ''hello'' \<and> extract_json ''hello'' = ''hello''"
proof -
  have f: "match_fenced ''hello'' = None" by (simp add: match_fenced_def fence_def)
  have p: "match_plain ''hello'' = None" by (simp add: match_plain_def)
  from f p show ?thesis
    by (simp add: match_fenced_None [symmetric] match_plain_None [symmetric] extract_json_def)
qed

text \<open>The policy with the reference engine: on that reply, on an object within prose, and on
  a reply that is no JSON at all.\<close>

theorem extraction_policy_witness:
  \<open>has_fenced_block fenced_reply
   \<and> extract_json fenced_reply = ''{"service":"user"}''
   \<and> parse_content reference_engine ''q'' (JStr fenced_reply)
       = Inr \<lparr> service = Some ''user'', operation = None, minDuration = None, maxDuration = None,
               tags = None, status = Some (JStr ''all''), natural_language_question = ''q'' \<rparr>
   \<and> \<not> has_fenced_block prose_reply \<and> has_braces prose_reply
   \<and> extract_json prose_reply = ''{"service":"user"}''
   \<and> parse_content reference_engine ''q'' (JStr prose_reply)
       = Inr \<lparr> service = Some ''user'', operation = None, minDuration = None, maxDuration = None,
               tags = None, status = Some (JStr ''all''), natural_language_question = ''q'' \<rparr>
   \<and> \<not> has_fenced_block ''hello'' \<and> \<not> has_braces ''hello''
   \<and> parse_content reference_engine ''q'' (JStr ''hello'')
       = Inl (Error ''Failed to parse LLM response as JSON: Unexpected token in JSON'')\<close>
proof -
  have p: \<open>JSON_parse reference_engine ''{"service":"user"}'' = Inr (JObj [(''service'', JStr ''user'')])\<close>
    by (simp add: reference_simps)
  have h: "JSON_parse reference_engine ''hello'' = Inl ''Unexpected token in JSON''"
    by (simp add: reference_simps)
  show ?thesis
    using extraction_policy [of fenced_reply reference_engine "''q''"]
      extraction_policy [of prose_reply reference_engine "''q''"]
      extraction_policy [of "''hello''" reference_engine "''q''"]
      fenced_reply_has_block fenced_reply_extract prose_reply_extract hello_extract p h
    by (simp add: normalize_def nonempty_or_undefined_def normalize_tags_def js_or_def)
qed

lemma body_42: \<open>JSON_parse reference_engine (completion_body ''42'') = Inr (JObj [(''response'', JStr ''42'')])\<close>
  by (simp add: completion_body_def json_quote_def reference_simps)

lemma content_42:
  "parse_content reference_engine ''q'' (JStr ''42'')
       = Inr \<lparr> service = None, operation = None, minDuration = None, maxDuration = None,
               tags = None, status = Some (JStr ''all''), natural_language_question = ''q'' \<rparr>"
  by (simp add: match_fenced_def match_plain_def fence_def parse_content_def extract_json_def
        reference_simps normalize_def nonempty_or_undefined_def normalize_tags_def js_or_def)

text \<open>
  Claim C3 says that a reply with neither a fenced block nor a pair of braces fails, as does
  one whose JSON is not an object. The reply \<^verbatim>\<open>42\<close> has neither, is parsed whole, and gives a
  query with every field absent and status \<^verbatim>\<open>all\<close>.
\<close>

theorem bare_number_accepted:
  "match_fenced ''42'' = None \<and> match_plain ''42'' = None
   \<and> fst (parseNaturalLanguageQuery reference_engine (local_backend 1 ''42'') ''q'' local_config)
       = Inr (\<lparr> service = None, operation = None, minDuration = None, maxDuration = None,
                tags = None, status = Some (JStr ''all''), natural_language_question = ''q'' \<rparr>,
              \<lparr> content = JStr ''42'', llm_model = ''ollama-free'' \<rparr>)"
proof -
  have "match_fenced ''42'' = None" "match_plain ''42'' = None"
    by (simp_all add: match_fenced_def match_plain_def fence_def)
  with parser_on_local_backend [OF body_42 _ content_42] show ?thesis by simp
qed

lemma body_failed:
  \<open>JSON_parse reference_engine (completion_body ''{"status":"failed"}'')
     = Inr (JObj [(''response'', JStr ''{"status":"failed"}'')])\<close>
  by (simp add: completion_body_def json_quote_def reference_simps)

lemma content_failed:
  \<open>parse_content reference_engine ''q'' (JStr ''{"status":"failed"}'')
     = Inr \<lparr> service = None, operation = None, minDuration = None, maxDuration = None,
             tags = None, status = Some (JStr ''failed''), natural_language_question = ''q'' \<rparr>\<close>
  by (simp add: match_fenced_def match_plain_def fence_def parse_content_def extract_json_def
        reference_simps normalize_def nonempty_or_undefined_def normalize_tags_def js_or_def)

text \<open>
  Claim C2, at the input where the code departs from it. The status of the payload is cast,
  not checked: the reply \<^verbatim>\<open>{"status":"failed"}\<close> gives a query whose status is \<^verbatim>\<open>failed\<close>, not
  \<^verbatim>\<open>all\<close>, which the type of \<^verbatim>\<open>IParsedQuery.status\<close> does not allow. (An absent or falsy status
  does become \<^verbatim>\<open>all\<close>, and no error is raised, as the claim says.)
\<close>

theorem unrecognized_status_kept:
  \<open>fst (parseNaturalLanguageQuery reference_engine (local_backend 1 ''{"status":"failed"}'')
          ''q'' local_config)
     = Inr (\<lparr> service = None, operation = None, minDuration = None, maxDuration = None,
              tags = None, status = Some (JStr ''failed''), natural_language_question = ''q'' \<rparr>,
            \<lparr> content = JStr ''{"status":"failed"}'', llm_model = ''ollama-free'' \<rparr>)\<close>
  using parser_on_local_backend [OF body_failed _ content_failed] by simp

lemma body_tags:
  \<open>JSON_parse reference_engine (completion_body ''{"tags":{"a":true}}'')
     = Inr (JObj [(''response'', JStr ''{"tags":{"a":true}}'')])\<close>
  by (simp add: completion_body_def json_quote_def reference_simps)

lemma content_tags:
  \<open>parse_content reference_engine ''q'' (JStr ''{"tags":{"a":true}}'')
     = Inr \<lparr> service = None, operation = None, minDuration = None, maxDuration = None,
             tags = Some (JObj [(''a'', JBool True)]), status = Some (JStr ''all''),
             natural_language_question = ''q'' \<rparr>\<close>
  by (simp add: match_fenced_def match_plain_def fence_def parse_content_def extract_json_def
        reference_simps normalize_def nonempty_or_undefined_def normalize_tags_def js_or_def)

text \<open>
  Claim C8, at the input where the code departs from it. The tags of the payload are cast to
  \<^verbatim>\<open>Record<string, string>\<close>, not checked: the reply \<^verbatim>\<open>{"tags":{"a":true}}\<close> gives a query whose
  tag \<^verbatim>\<open>a\<close> is the boolean \<^verbatim>\<open>true\<close>, not a string. (The rest of the claim holds, see
  \<open>parsed_fields_normalized\<close>.)
\<close>

theorem non_string_tag_kept:
  \<open>fst (parseNaturalLanguageQuery reference_engine (local_backend 1 ''{"tags":{"a":true}}'')
          ''q'' local_config)
     = Inr (\<lparr> service = None, operation = None, minDuration = None, maxDuration = None,
              tags = Some (JObj [(''a'', JBool True)]), status = Some (JStr ''all''),
              natural_language_question = ''q'' \<rparr>,
            \<lparr> content = JStr ''{"tags":{"a":true}}'', llm_model = ''ollama-free'' \<rparr>)\<close>
  using parser_on_local_backend [OF body_tags _ content_tags] by simp

section \<open>The orchestrator: what it guarantees\<close>

lemma llm_config_update [simp]:
  "llm_config (st\<lparr>loading := l, parsedQuery := p\<rparr>) = llm_config st"
  by (simp add: llm_config_def)

lemma handleSearch_blank:
  "trim (st_question st) = [] \<Longrightarrow>
     handleSearch b st = (st, [Message_warning ''Please enter a question''], [])"
  by (simp add: handleSearch_def)

lemma handleSearch_no_key:
  "trim (st_question st) \<noteq> [] \<Longrightarrow>
   (selectedModel st = ''openai-gpt4'' \<or> selectedModel st = ''openai-gpt3.5'') \<and> st_apiKey st = [] \<Longrightarrow>
     handleSearch b st =
       (st\<lparr>loading := False, parsedQuery := None, showSettings := True\<rparr>,
        [Message_error ''Please configure OpenAI API key in settings''], [])"
  by (simp add: handleSearch_def Let_def)

lemma handleSearch_failure:
  "trim (st_question st) \<noteq> [] \<Longrightarrow>
   \<not> ((selectedModel st = ''openai-gpt4'' \<or> selectedModel st = ''openai-gpt3.5'') \<and> st_apiKey st = []) \<Longrightarrow>
   parseNaturalLanguageQuery (js b) (fetch b) (st_question st) (llm_config st) = (Inl e, calls) \<Longrightarrow>
     handleSearch b st =
       (st\<lparr>loading := False, parsedQuery := None\<rparr>,
        [Console_error e, Message_error (error_text e)], calls)"
  by (simp add: handleSearch_def Let_def)

lemma handleSearch_compile_failure:
  "trim (st_question st) \<noteq> [] \<Longrightarrow>
   \<not> ((selectedModel st = ''openai-gpt4'' \<or> selectedModel st = ''openai-gpt3.5'') \<and> st_apiKey st = []) \<Longrightarrow>
   parseNaturalLanguageQuery (js b) (fetch b) (st_question st) (llm_config st)
     = (Inr (parsed, r), calls) \<Longrightarrow>
   convertParsedQueryToSearchFilters parsed = Inl e \<Longrightarrow>
     handleSearch b st =
       (st\<lparr>loading := False, parsedQuery := Some parsed\<rparr>,
        [Console_error (Error (TypeError_message (js b) e)),
         Message_error (TypeError_message (js b) e)], calls)"
  by (simp add: handleSearch_def Let_def error_text_def)

lemma handleSearch_success:
  "trim (st_question st) \<noteq> [] \<Longrightarrow>
   \<not> ((selectedModel st = ''openai-gpt4'' \<or> selectedModel st = ''openai-gpt3.5'') \<and> st_apiKey st = []) \<Longrightarrow>
   parseNaturalLanguageQuery (js b) (fetch b) (st_question st) (llm_config st)
     = (Inr (parsed, r), calls) \<Longrightarrow>
   convertParsedQueryToSearchFilters parsed = Inr filters \<Longrightarrow>
     handleSearch b st =
       (st\<lparr>loading := False, parsedQuery := Some parsed,
           queryHistory := \<lparr> question = st_question st, timestamp = Date_now b \<rparr>
                           # take 9 (queryHistory st)\<rparr>,
        [LocalStorage_setItem ''jaeger-ai-history''
           (\<lparr> question = st_question st, timestamp = Date_now b \<rparr> # take 9 (queryHistory st)),
         SearchTraces (build_search_query b filters),
         Message_success ''Search executed with AI-generated filters''],
        calls)"
  by (simp add: handleSearch_def Let_def)

lemma history_unchanged:
  assumes "\<not> completes b st"
  shows "queryHistory (fst (handleSearch b st)) = queryHistory st
    \<and> stored_histories (fst (snd (handleSearch b st))) = []"
proof (cases "trim (st_question st) = []")
  case True
  then show ?thesis by (simp add: handleSearch_blank)
next
  case q: False
  show ?thesis
  proof (cases "(selectedModel st = ''openai-gpt4'' \<or> selectedModel st = ''openai-gpt3.5'') \<and> st_apiKey st = []")
    case True
    with q show ?thesis by (simp add: handleSearch_no_key)
  next
    case k: False
    obtain res calls where p:
      "parseNaturalLanguageQuery (js b) (fetch b) (st_question st) (llm_config st) = (res, calls)"
      by (cases "parseNaturalLanguageQuery (js b) (fetch b) (st_question st) (llm_config st)")
    show ?thesis
    proof (cases res)
      case (Inl e)
      with p q k show ?thesis by (simp add: handleSearch_failure)
    next
      case (Inr pr)
      obtain parsed r where pr: "pr = (parsed, r)" by (cases pr)
      with assms q k p Inr obtain e where "convertParsedQueryToSearchFilters parsed = Inl e"
        by (cases "convertParsedQueryToSearchFilters parsed") (auto simp: completes_def)
      with p q k Inr pr show ?thesis by (simp add: handleSearch_compile_failure)
    qed
  qed
qed

lemma history_prepended:
  assumes "completes b st"
  shows "queryHistory (fst (handleSearch b st))
           = \<lparr> question = st_question st, timestamp = Date_now b \<rparr> # take 9 (queryHistory st)
    \<and> stored_histories (fst (snd (handleSearch b st))) = [queryHistory (fst (handleSearch b st))]"
proof -
  obtain res calls where p:
    "parseNaturalLanguageQuery (js b) (fetch b) (st_question st) (llm_config st) = (res, calls)"
    by (cases "parseNaturalLanguageQuery (js b) (fetch b) (st_question st) (llm_config st)")
  with assms obtain parsed r where r: "res = Inr (parsed, r)"
    by (cases res) (auto simp: completes_def)
  with p assms obtain filters where "convertParsedQueryToSearchFilters parsed = Inr filters"
    by (cases "convertParsedQueryToSearchFilters parsed") (auto simp: completes_def)
  with p r assms show ?thesis by (simp add: completes_def handleSearch_success)
qed

lemma newest_first_take: "newest_first hs \<Longrightarrow> newest_first (take n hs)"
  unfolding newest_first_def by (rule sorted_wrt_take)

text \<open>
  Claim C9. When the gateway or the extraction fails, when the filter compiler throws on the
  parsed query, and in every other run that does not get as far as the search, \<^verbatim>\<open>handleSearch\<close>
  leaves the history as it was and stores nothing. A run that completes puts one entry, the
  question with the time of \<^verbatim>\<open>Date.now()\<close>, in front of the first nine entries of the old history,
  and stores that list: at most ten entries. So a history of at most ten entries stays so, and a
  history that is newest first stays so as long as the clock does not run backwards.
\<close>

theorem history_bounded_newest_first:
  "(\<forall>e. fst (parseNaturalLanguageQuery (js b) (fetch b) (st_question st) (llm_config st)) = Inl e \<longrightarrow>
        queryHistory (fst (handleSearch b st)) = queryHistory st
      \<and> stored_histories (fst (snd (handleSearch b st))) = [])
   \<and> (\<forall>parsed r e.
        fst (parseNaturalLanguageQuery (js b) (fetch b) (st_question st) (llm_config st))
          = Inr (parsed, r)
        \<and> convertParsedQueryToSearchFilters parsed = Inl e \<longrightarrow>
        queryHistory (fst (handleSearch b st)) = queryHistory st
      \<and> stored_histories (fst (snd (handleSearch b st))) = [])
   \<and> (\<not> completes b st \<longrightarrow>
        queryHistory (fst (handleSearch b st)) = queryHistory st
      \<and> stored_histories (fst (snd (handleSearch b st))) = [])
   \<and> (completes b st \<longrightarrow>
        queryHistory (fst (handleSearch b st))
          = \<lparr> question = st_question st, timestamp = Date_now b \<rparr> # take 9 (queryHistory st)
      \<and> stored_histories (fst (snd (handleSearch b st))) = [queryHistory (fst (handleSearch b st))]
      \<and> length (queryHistory (fst (handleSearch b st))) \<le> 10)
   \<and> (length (queryHistory st) \<le> 10 \<longrightarrow> length (queryHistory (fst (handleSearch b st))) \<le> 10)
   \<and> (newest_first (queryHistory st) \<and> (\<forall>h \<in> set (queryHistory st). timestamp h \<le> Date_now b) \<longrightarrow>
        newest_first (queryHistory (fst (handleSearch b st))))"
proof (intro conjI impI allI)
  fix e
  assume "fst (parseNaturalLanguageQuery (js b) (fetch b) (st_question st) (llm_config st)) = Inl e"
  then have "\<not> completes b st" by (simp add: completes_def)
  then show "queryHistory (fst (handleSearch b st)) = queryHistory st"
    and "stored_histories (fst (snd (handleSearch b st))) = []"
    using history_unchanged by blast+
next
  fix parsed r e
  assume "fst (parseNaturalLanguageQuery (js b) (fetch b) (st_question st) (llm_config st))
            = Inr (parsed, r)
          \<and> convertParsedQueryToSearchFilters parsed = Inl e"
  then have "\<not> completes b st" by (simp add: completes_def)
  then show "queryHistory (fst (handleSearch b st)) = queryHistory st"
    and "stored_histories (fst (snd (handleSearch b st))) = []"
    using history_unchanged by blast+
next
  assume "\<not> completes b st"
  then show "queryHistory (fst (handleSearch b st)) = queryHistory st"
    and "stored_histories (fst (snd (handleSearch b st))) = []"
    using history_unchanged by blast+
next
  assume c: "completes b st"
  then show h: "queryHistory (fst (handleSearch b st))
          = \<lparr> question = st_question st, timestamp = Date_now b \<rparr> # take 9 (queryHistory st)"
    and "stored_histories (fst (snd (handleSearch b st))) = [queryHistory (fst (handleSearch b st))]"
    using history_prepended by blast+
  show "length (queryHistory (fst (handleSearch b st))) \<le> 10"
    unfolding h by simp
next
  assume l: "length (queryHistory st) \<le> 10"
  show "length (queryHistory (fst (handleSearch b st))) \<le> 10"
  proof (cases "completes b st")
    case True
    then show ?thesis using history_prepended [of b st] by simp
  next
    case False
    then show ?thesis using history_unchanged [of b st] l by simp
  qed
next
  assume a: "newest_first (queryHistory st) \<and> (\<forall>h \<in> set (queryHistory st). timestamp h \<le> Date_now b)"
  show "newest_first (queryHistory (fst (handleSearch b st)))"
  proof (cases "completes b st")
    case True
    from a have "newest_first (take 9 (queryHistory st))" by (simp add: newest_first_take)
    moreover from a have "\<forall>h \<in> set (take 9 (queryHistory st)). timestamp h \<le> Date_now b"
      by (meson in_set_takeD)
    ultimately show ?thesis
      using history_prepended [OF True] by (simp add: newest_first_def)
  next
    case False
    then show ?thesis using history_unchanged [of b st] a by simp
  qed
qed

lemma demo_body:
  \<open>JSON_parse reference_engine
      (completion_body ''{"service":"user","minDuration":"500ms","status":"all"}'')
    = Inr (JObj [(''response'', JStr ''{"service":"user","minDuration":"500ms","status":"all"}'')])\<close>
  by (simp add: completion_body_def json_quote_def reference_simps)

lemma demo_completion:
  \<open>JSON_parse reference_engine ''{"service":"user","minDuration":"500ms","status":"all"}''
    = Inr (JObj [(''service'', JStr ''user''), (''minDuration'', JStr ''500ms''),
                 (''status'', JStr ''all'')])\<close>
  by (simp add: reference_simps)

lemma demo_parse:
  \<open>fst (parseNaturalLanguageQuery reference_engine (fetch demo_browser)
          ''Show me slow requests to the user service'' (llm_config demo_state))
    = Inr (\<lparr> service = Some ''user'', operation = None, minDuration = Some ''500ms'',
              maxDuration = None, tags = None, status = Some (JStr ''all''),
              natural_language_question = ''Show me slow requests to the user service'' \<rparr>,
           \<lparr> content = JStr ''{"service":"user","minDuration":"500ms","status":"all"}'',
             llm_model = ''ollama-free'' \<rparr>)\<close>
  by (simp add: parseNaturalLanguageQuery_def queryLLM_def OllamaClient_query_def ollama_try_def
        demo_browser_def demo_state_def llm_config_def local_backend_def always_def
        ok_response_def demo_body
        js_or_def parse_content_def extract_json_def match_fenced_def match_plain_def fence_def
        demo_completion normalize_def nonempty_or_undefined_def normalize_tags_def)

lemma demo_completes: "completes demo_browser demo_state"
proof -
  have "js demo_browser = reference_engine" by (simp add: demo_browser_def)
  moreover have "st_question demo_state = ''Show me slow requests to the user service''"
    by (simp add: demo_state_def)
  moreover have "trim ''Show me slow requests to the user service''
                   = ''Show me slow requests to the user service''"
    by (simp add: trim_def js_whitespace_def)
  moreover have "selectedModel demo_state = ''ollama-free''" by (simp add: demo_state_def)
  ultimately show ?thesis
    by (simp add: completes_def demo_parse slow_filters)
qed

lemma down_parse:
  "parseNaturalLanguageQuery reference_engine (always 0 (Rejected (Error ''Failed to fetch'')))
       ''Show me slow requests to the user service'' (llm_config demo_state)
     = (Inl (Error ''Failed to fetch''),
        [ollama_request (new_OllamaClient (Some ''http://localhost:11434'') None)
           (build_prompt ''Show me slow requests to the user service'')])"
  by (simp add: parseNaturalLanguageQuery_def queryLLM_def OllamaClient_query_def ollama_try_def
        demo_state_def llm_config_def always_def ollama_catch_def)

lemma odd_body:
  \<open>JSON_parse reference_engine
      (completion_body ''{"tags":{"a":{"toString":1}},"status":"error"}'')
    = Inr (JObj [(''response'', JStr ''{"tags":{"a":{"toString":1}},"status":"error"}'')])\<close>
  by (simp add: completion_body_def json_quote_def reference_simps)

lemma odd_completion:
  \<open>JSON_parse reference_engine ''{"tags":{"a":{"toString":1}},"status":"error"}''
    = Inr (JObj [(''tags'', JObj [(''a'', JObj [(''toString'', JNum ''1'')])]),
                 (''status'', JStr ''error'')])\<close>
  by (simp add: reference_simps)

lemma odd_parse:
  \<open>fst (parseNaturalLanguageQuery reference_engine (fetch odd_browser)
          ''Show me slow requests to the user service'' (llm_config demo_state))
    = Inr (\<lparr> service = None, operation = None, minDuration = None,
              maxDuration = None,
              tags = Some (JObj [(''a'', JObj [(''toString'', JNum ''1'')])]),
              status = Some (JStr ''error''),
              natural_language_question = ''Show me slow requests to the user service'' \<rparr>,
           \<lparr> content = JStr ''{"tags":{"a":{"toString":1}},"status":"error"}'',
             llm_model = ''ollama-free'' \<rparr>)\<close>
  by (simp add: parseNaturalLanguageQuery_def queryLLM_def OllamaClient_query_def ollama_try_def
        odd_browser_def demo_browser_def demo_state_def llm_config_def local_backend_def always_def
        ok_response_def odd_body
        js_or_def parse_content_def extract_json_def match_fenced_def match_plain_def fence_def
        odd_completion normalize_def nonempty_or_undefined_def normalize_tags_def)

lemma odd_throws:
  \<open>convertParsedQueryToSearchFilters
      \<lparr> service = None, operation = None, minDuration = None, maxDuration = None,
        tags = Some (JObj [(''a'', JObj [(''toString'', JNum ''1'')])]),
        status = Some (JStr ''error''),
        natural_language_question = ''Show me slow requests to the user service'' \<rparr>
    = Inl NotPrimitive\<close>
  by (simp add: convertParsedQueryToSearchFilters_def copy_field_def copy_tags_def tag_string_def)

lemma odd_run:
  \<open>fst (snd (handleSearch odd_browser demo_state))
     = [Console_error (Error ''Cannot convert object to primitive value''),
        Message_error ''Cannot convert object to primitive value'']
   \<and> map_option tags (parsedQuery (fst (handleSearch odd_browser demo_state)))
       = Some (Some (JObj [(''a'', JObj [(''toString'', JNum ''1'')])]))\<close>
proof -
  have j: "js odd_browser = reference_engine" by (simp add: odd_browser_def demo_browser_def)
  have s: "st_question demo_state = ''Show me slow requests to the user service''"
    "selectedModel demo_state = ''ollama-free''"
    by (simp_all add: demo_state_def)
  have t: "trim ''Show me slow requests to the user service''
                   = ''Show me slow requests to the user service''"
    by (simp add: trim_def js_whitespace_def)
  obtain calls where p:
    \<open>parseNaturalLanguageQuery (js odd_browser) (fetch odd_browser) (st_question demo_state)
        (llm_config demo_state)
      = (Inr (\<lparr> service = None, operation = None, minDuration = None,
              maxDuration = None,
              tags = Some (JObj [(''a'', JObj [(''toString'', JNum ''1'')])]),
              status = Some (JStr ''error''),
              natural_language_question = ''Show me slow requests to the user service'' \<rparr>,
           \<lparr> content = JStr ''{"tags":{"a":{"toString":1}},"status":"error"}'',
             llm_model = ''ollama-free'' \<rparr>), calls)\<close>
    using odd_parse j s
    by (cases "parseNaturalLanguageQuery (js odd_browser) (fetch odd_browser)
                 (st_question demo_state) (llm_config demo_state)") simp
  have "trim (st_question demo_state) \<noteq> []" using s t by simp
  moreover have "\<not> ((selectedModel demo_state = ''openai-gpt4''
                     \<or> selectedModel demo_state = ''openai-gpt3.5'') \<and> st_apiKey demo_state = [])"
    using s by simp
  ultimately show ?thesis
    using handleSearch_compile_failure [OF _ _ p odd_throws] j
    by (simp add: reference_engine_def reference_message_def)
qed

text \<open>A run on a history of ten entries: the oldest one is dropped. With the backend down the
  history stays as it is. With a reply whose tag value has no string conversion the parsed query
  is shown, the compiler throws, the error is reported, and the history stays as it is.\<close>

theorem history_bounded_newest_first_witness:
  \<open>completes demo_browser demo_state
   \<and> length (queryHistory demo_state) = 10
   \<and> newest_first (queryHistory demo_state)
   \<and> queryHistory (fst (handleSearch demo_browser demo_state))
       = \<lparr> question = ''Show me slow requests to the user service'', timestamp = 1700000000003 \<rparr>
         # map (\<lambda>n. \<lparr> question = ''earlier'', timestamp = n \<rparr>) [10, 9, 8, 7, 6, 5, 4, 3, 2]
   \<and> newest_first (queryHistory (fst (handleSearch demo_browser demo_state)))
   \<and> fst (parseNaturalLanguageQuery (js down_browser) (fetch down_browser)
             (st_question demo_state) (llm_config demo_state)) = Inl (Error ''Failed to fetch'')
   \<and> queryHistory (fst (handleSearch down_browser demo_state)) = ten_entries
   \<and> stored_histories (fst (snd (handleSearch down_browser demo_state))) = []
   \<and> map_option tags (parsedQuery (fst (handleSearch odd_browser demo_state)))
       = Some (Some (JObj [(''a'', JObj [(''toString'', JNum ''1'')])]))
   \<and> fst (snd (handleSearch odd_browser demo_state))
       = [Console_error (Error ''Cannot convert object to primitive value''),
          Message_error ''Cannot convert object to primitive value'']
   \<and> queryHistory (fst (handleSearch odd_browser demo_state)) = ten_entries
   \<and> stored_histories (fst (snd (handleSearch odd_browser demo_state))) = []\<close>
proof -
  have h: "queryHistory demo_state = ten_entries" "Date_now demo_browser = 1700000000003"
    "st_question demo_state = ''Show me slow requests to the user service''"
    by (simp_all add: demo_state_def demo_browser_def)
  have n: "newest_first ten_entries" by (simp add: newest_first_def ten_entries_def)
  have t: "\<forall>h \<in> set ten_entries. timestamp h \<le> 1700000000003" by (simp add: ten_entries_def)
  have k: "take 9 ten_entries
             = map (\<lambda>n. \<lparr> question = ''earlier'', timestamp = n \<rparr>) [10, 9, 8, 7, 6, 5, 4, 3, 2]"
    by (simp add: ten_entries_def)
  have l: "length ten_entries = 10" by (simp add: ten_entries_def)
  have d: "fst (parseNaturalLanguageQuery (js down_browser) (fetch down_browser)
             (st_question demo_state) (llm_config demo_state)) = Inl (Error ''Failed to fetch'')"
    by (simp add: down_browser_def demo_browser_def h(3) down_parse)
  have j: "js odd_browser = reference_engine" by (simp add: odd_browser_def demo_browser_def)
  have o: \<open>fst (parseNaturalLanguageQuery (js odd_browser) (fetch odd_browser)
             (st_question demo_state) (llm_config demo_state))
    = Inr (\<lparr> service = None, operation = None, minDuration = None,
              maxDuration = None,
              tags = Some (JObj [(''a'', JObj [(''toString'', JNum ''1'')])]),
              status = Some (JStr ''error''),
              natural_language_question = ''Show me slow requests to the user service'' \<rparr>,
           \<lparr> content = JStr ''{"tags":{"a":{"toString":1}},"status":"error"}'',
             llm_model = ''ollama-free'' \<rparr>)\<close>
    by (simp add: j h(3) odd_parse)
  from history_bounded_newest_first [of demo_browser demo_state]
    history_bounded_newest_first [of down_browser demo_state]
    history_bounded_newest_first [of odd_browser demo_state]
    demo_completes h n t k l d o odd_throws odd_run
  show ?thesis by (simp add: newest_first_def)
qed

end
